theory Spec2Isabelle
  imports Main
begin

section \<open>JavaScript strings\<close>

text \<open>
  A JavaScript string is a finite sequence of UTF-16 code units, and \<open>length\<close>,
  \<open>substring\<close>, \<open>startsWith\<close>, \<open>split\<close> and the regular expressions of the source
  (none has the \<open>u\<close> flag) all work on code units. A string is therefore a list of
  code units, and a code unit is a natural number: below 65536 in every JavaScript
  string, a bound that no definition here depends on, so that what is proved of every
  list holds of every JavaScript string. \<open>str\<close> embeds an ASCII literal.
\<close>

type_synonym code_unit = nat
type_synonym jsstring = "code_unit list"

definition str :: "string \<Rightarrow> jsstring" where
  "str s = map of_char s"

text \<open>ECMAScript's WhiteSpace and LineTerminator productions.\<close>

definition isWhiteSpace :: "code_unit \<Rightarrow> bool" where
  "isWhiteSpace c =
     (c = 0x0009 \<or> c = 0x000B \<or> c = 0x000C \<or> c = 0x0020 \<or> c = 0x00A0 \<or> c = 0x1680 \<or>
      (0x2000 \<le> c \<and> c \<le> 0x200A) \<or> c = 0x202F \<or> c = 0x205F \<or> c = 0x3000 \<or> c = 0xFEFF)"

definition isLineTerminator :: "code_unit \<Rightarrow> bool" where
  "isLineTerminator c = (c = 0x000A \<or> c = 0x000D \<or> c = 0x2028 \<or> c = 0x2029)"

text \<open>
  What \<open>String.prototype.trim\<close> strips and what the class \<open>\s\<close> matches: white space
  and line terminators.
\<close>

definition isTrimmable :: "code_unit \<Rightarrow> bool" where
  "isTrimmable c = (isWhiteSpace c \<or> isLineTerminator c)"

definition trim :: "jsstring \<Rightarrow> jsstring" where
  "trim s = rev (dropWhile isTrimmable (rev (dropWhile isTrimmable s)))"

text \<open>
  \<open>s.split(sep)\<close> for a separator of one code unit (the source splits at a space and
  at a line feed): the pieces between the separators, in order. The piece being read
  is kept in reverse. The result is never empty: \<open>''.split(' ')\<close> is \<open>['']\<close>.
\<close>

fun split_from :: "code_unit \<Rightarrow> jsstring \<Rightarrow> jsstring \<Rightarrow> jsstring list" where
  "split_from sep piece [] = [rev piece]"
| "split_from sep piece (c # cs) =
     (if c = sep then rev piece # split_from sep [] cs else split_from sep (c # piece) cs)"

definition split :: "code_unit \<Rightarrow> jsstring \<Rightarrow> jsstring list" where
  "split sep s = split_from sep [] s"

definition startsWith :: "jsstring \<Rightarrow> jsstring \<Rightarrow> bool" where
  "startsWith s p = (take (length p) s = p)"

fun join :: "jsstring \<Rightarrow> jsstring list \<Rightarrow> jsstring" where
  "join sep [] = []"
| "join sep [x] = x"
| "join sep (x # y # ys) = x @ sep @ join sep (y # ys)"

definition SPACE :: code_unit where "SPACE = 0x0020"
definition LF :: code_unit where "LF = 0x000A"

section \<open>Regular expressions of the deny list\<close>

text \<open>
  The six patterns of \<open>dangerousPatterns\<close> are sequences of atoms (a literal code unit,
  \<open>\s\<close>, \<open>.\<close>), each taken once or under \<open>*\<close> or \<open>+\<close>, with or without the flag
  \<open>i\<close>. \<open>RegExp.prototype.test\<close> on such a pattern (no \<open>g\<close> or \<open>y\<close> flag, so no
  \<open>lastIndex\<close> state) says whether some substring of the input is in the pattern's
  language; greedy matching with backtracking finds a match whenever one exists.
\<close>

datatype atom = Lit code_unit | WhiteSpaceClass | AnyChar

datatype item = One atom | Star atom | Plus atom

record regexp =
  items :: "item list"
  ignoreCase :: bool

text \<open>
  Canonicalize of a pattern without the \<open>u\<close> flag maps a code unit to its upper case,
  and never maps a code unit from 128 on to one below 128. Every literal of the six
  patterns is ASCII, so only the ASCII part of the mapping decides a comparison with a
  literal; outside ASCII the model leaves the code unit as it is.
\<close>

definition canonicalize :: "code_unit \<Rightarrow> code_unit" where
  "canonicalize c = (if 0x61 \<le> c \<and> c \<le> 0x7A then c - 0x20 else c)"

fun atom_matches :: "bool \<Rightarrow> atom \<Rightarrow> code_unit \<Rightarrow> bool" where
  "atom_matches ic (Lit p) c = (if ic then canonicalize c = canonicalize p else c = p)"
| "atom_matches ic WhiteSpaceClass c = isTrimmable c"
| "atom_matches ic AnyChar c = (\<not> isLineTerminator c)"

text \<open>Does a match of the items start at the head of the input?\<close>

fun match_here :: "bool \<Rightarrow> item list \<Rightarrow> jsstring \<Rightarrow> bool" where
  "match_here ic [] s = True"
| "match_here ic (One a # r) [] = False"
| "match_here ic (One a # r) (c # cs) =
     (if atom_matches ic a c then match_here ic r cs else False)"
| "match_here ic (Star a # r) [] = match_here ic r []"
| "match_here ic (Star a # r) (c # cs) =
     (if match_here ic r (c # cs) then True
      else if atom_matches ic a c then match_here ic (Star a # r) cs else False)"
| "match_here ic (Plus a # r) [] = False"
| "match_here ic (Plus a # r) (c # cs) =
     (if atom_matches ic a c then match_here ic (Star a # r) cs else False)"

text \<open>\<open>pattern.test(s)\<close>: a match may start at any index, the end included.\<close>

fun search :: "bool \<Rightarrow> item list \<Rightarrow> jsstring \<Rightarrow> bool" where
  "search ic p [] = match_here ic p []"
| "search ic p (c # cs) = (if match_here ic p (c # cs) then True else search ic p cs)"

definition test :: "regexp \<Rightarrow> jsstring \<Rightarrow> bool" where
  "test re s = search (ignoreCase re) (items re) s"

text \<open>
  For reference, the language of a pattern, as the grammar of regular expressions gives
  it: the texts that the items match one after the other, \<open>*\<close> taking any run of
  code units of its atom and \<open>+\<close> any run that is not empty.
\<close>

inductive accepts :: "bool \<Rightarrow> item list \<Rightarrow> jsstring \<Rightarrow> bool" for ic :: bool where
  accepts_Nil: "accepts ic [] []"
| accepts_One: "atom_matches ic a c \<Longrightarrow> accepts ic r s \<Longrightarrow> accepts ic (One a # r) (c # s)"
| accepts_Star: "list_all (atom_matches ic a) u \<Longrightarrow> accepts ic r s \<Longrightarrow> accepts ic (Star a # r) (u @ s)"
| accepts_Plus: "u \<noteq> [] \<Longrightarrow> list_all (atom_matches ic a) u \<Longrightarrow> accepts ic r s
     \<Longrightarrow> accepts ic (Plus a # r) (u @ s)"

definition lits :: "string \<Rightarrow> item list" where
  "lits s = map (\<lambda>c. One (Lit (of_char c))) s"

section \<open>TerminalService\<close>

text \<open>
  The fields the constructor sets. Time-outs and lengths are natural numbers; the
  constructor's \<open>options.x || default\<close> takes the default when the option is absent or
  0. \<open>safeCommands\<close> is the \<open>Set\<close> in insertion order.
\<close>

record TerminalService =
  projectRoot :: jsstring
  timeout :: nat
  maxOutputLength :: nat
  safeCommands :: "jsstring list"

record service_options =
  so_projectRoot :: "jsstring option"
  so_timeout :: "nat option"
  so_maxOutputLength :: "nat option"

definition or_default :: "nat option \<Rightarrow> nat \<Rightarrow> nat" where
  "or_default v d = (case v of None \<Rightarrow> d | Some n \<Rightarrow> if n = 0 then d else n)"

definition or_string :: "jsstring option \<Rightarrow> jsstring \<Rightarrow> jsstring" where
  "or_string v d = (case v of None \<Rightarrow> d | Some s \<Rightarrow> if s = [] then d else s)"

definition no_service_options :: service_options where
  "no_service_options =
     \<lparr>so_projectRoot = None, so_timeout = None, so_maxOutputLength = None\<rparr>"

text \<open>\<open>new TerminalService(options)\<close>; the first argument is \<open>process.cwd()\<close>.\<close>

definition new_TerminalService :: "jsstring \<Rightarrow> service_options \<Rightarrow> TerminalService" where
  "new_TerminalService process_cwd options =
     \<lparr>projectRoot = or_string (so_projectRoot options) process_cwd,
      timeout = or_default (so_timeout options) 30000,
      maxOutputLength = or_default (so_maxOutputLength options) 10000,
      safeCommands = map str
        [''ls'', ''pwd'', ''echo'', ''cat'', ''grep'', ''find'', ''which'',
         ''npm list'', ''npm run'', ''yarn list'', ''yarn run'',
         ''git status'', ''git log'', ''git branch'', ''git diff'', ''git --version'',
         ''node --version'', ''npm --version'', ''yarn --version'']\<rparr>"

definition dangerousPatterns :: "regexp list" where
  "dangerousPatterns =
     [\<lparr>items = lits ''rm'' @ [Plus WhiteSpaceClass] @ lits ''-rf'', ignoreCase = True\<rparr>,
      \<lparr>items = lits ''>'' @ [Star WhiteSpaceClass] @ lits ''/dev/null'', ignoreCase = False\<rparr>,
      \<lparr>items = lits ''sudo'', ignoreCase = True\<rparr>,
      \<lparr>items = lits ''chmod'' @ [Plus WhiteSpaceClass] @ lits ''777'', ignoreCase = True\<rparr>,
      \<lparr>items = lits ''curl'' @ [Star AnyChar] @ lits ''|'' @ [Star AnyChar] @ lits ''sh'',
        ignoreCase = True\<rparr>,
      \<lparr>items = lits ''wget'' @ [Star AnyChar] @ lits ''|'' @ [Star AnyChar] @ lits ''sh'',
        ignoreCase = True\<rparr>]"

text \<open>
  \<open>isCommandSafe\<close>: the loop over the deny patterns returns false at the first match;
  only then is the allow list consulted, with the first piece of the trimmed command
  split at spaces, and with \<open>startsWith\<close> on the command as given.
\<close>

definition baseCommand :: "jsstring \<Rightarrow> jsstring" where
  "baseCommand command = hd (split SPACE (trim command))"

definition matchesDangerousPattern :: "jsstring \<Rightarrow> bool" where
  "matchesDangerousPattern command = list_ex (\<lambda>pattern. test pattern command) dangerousPatterns"

definition startsWithSafeCommand :: "TerminalService \<Rightarrow> jsstring \<Rightarrow> bool" where
  "startsWithSafeCommand svc command = list_ex (\<lambda>safe. startsWith command safe) (safeCommands svc)"

definition isCommandSafe :: "TerminalService \<Rightarrow> jsstring \<Rightarrow> bool" where
  "isCommandSafe svc command =
     (if matchesDangerousPattern command then False
      else (baseCommand command \<in> set (safeCommands svc) \<or>
            startsWithSafeCommand svc command))"

section \<open>Results, options and the host\<close>

text \<open>
  The value of \<open>error.code\<close> and of a result's \<open>exitCode\<close>: a number, a string (such
  as \<open>'ENOENT'\<close>) or absent (\<open>null\<close>, \<open>undefined\<close>). \<open>error.code || 1\<close> replaces every
  falsy value by 1.
\<close>

datatype js_code = CNum int | CStr jsstring | CNull

fun code_or_1 :: "js_code \<Rightarrow> js_code" where
  "code_or_1 (CNum n) = (if n = 0 then CNum 1 else CNum n)"
| "code_or_1 (CStr s) = (if s = [] then CNum 1 else CStr s)"
| "code_or_1 CNull = CNum 1"

text \<open>
  The object \<open>executeCommand\<close> returns. The three flags are only ever tested for
  truthiness, so a flag the object literal leaves out is \<open>False\<close>.
\<close>

record result =
  command :: jsstring
  stdout :: jsstring
  stderr :: jsstring
  exitCode :: js_code
  duration :: int
  blocked :: bool
  truncated :: bool
  error :: bool

text \<open>The \<open>options\<close> argument of \<open>executeCommand\<close> and \<open>executeCommands\<close>.\<close>

record options =
  cwd :: "jsstring option"
  opt_timeout :: "nat option"
  env :: "(jsstring \<times> jsstring) list"
  skipSafetyCheck :: bool
  continueOnError :: bool

definition no_options :: options where
  "no_options =
     \<lparr>cwd = None, opt_timeout = None, env = [], skipSafetyCheck = False,
      continueOnError = False\<rparr>"

text \<open>What \<open>execAsync\<close> is called with, and how its promise settles.\<close>

record exec_options =
  x_cwd :: jsstring
  x_timeout :: nat
  x_maxBuffer :: nat
  x_env :: "(jsstring \<times> jsstring) list"

record exec_error =
  e_stdout :: "jsstring option"
  e_stderr :: "jsstring option"
  e_message :: jsstring
  e_code :: js_code

datatype exec_outcome = Resolved jsstring jsstring | Rejected exec_error

text \<open>
  The stdout a run captured, before \<open>truncateOutput\<close>: \<open>stdout\<close> of the resolved
  promise, or \<open>error.stdout || ''\<close> of the rejected one.
\<close>

fun captured_stdout :: "exec_outcome \<Rightarrow> jsstring" where
  "captured_stdout (Resolved out err) = out"
| "captured_stdout (Rejected e) = or_string (e_stdout e) []"

text \<open>The parameters and the outcome of the parent provider's \<open>generateText\<close>.\<close>

record generate_params =
  systemPrompt :: jsstring
  prompt :: jsstring
  maxTokens :: nat

datatype generate_outcome = Generated jsstring | GenerateFailed jsstring

text \<open>
  Everything outside the two classes is the host, over a world \<open>'w\<close> that only the
  host changes: the clock, the subprocess runner \<open>promisify(exec)\<close>, the environment
  \<open>process.env\<close>, and the parent class's \<open>generateText\<close>. \<open>log\<close> of \<open>utils.js\<close>
  only writes to the console and is left out.
\<close>

record 'w host =
  Date_now :: "'w \<Rightarrow> int \<times> 'w"
  execAsync :: "jsstring \<Rightarrow> exec_options \<Rightarrow> 'w \<Rightarrow> exec_outcome \<times> 'w"
  process_env :: "(jsstring \<times> jsstring) list"
  super_generateText :: "generate_params \<Rightarrow> 'w \<Rightarrow> generate_outcome \<times> 'w"

text \<open>
  The state threaded through the calls: the world, and a trace of the host's two
  effects, the commands handed to \<open>execAsync\<close> and the parameters handed to the
  parent's \<open>generateText\<close>, each in call order.
\<close>

record 'w state =
  world :: 'w
  spawned :: "jsstring list"
  generated :: "generate_params list"

section \<open>Executing commands\<close>

definition truncation_marker :: jsstring where
  "truncation_marker = str ''\<newline>... (output truncated)''"

text \<open>\<open>truncateOutput\<close>; \<open>!output\<close> holds of the empty string.\<close>

definition truncateOutput :: "TerminalService \<Rightarrow> jsstring \<Rightarrow> jsstring" where
  "truncateOutput svc output =
     (if output = [] \<or> length output \<le> maxOutputLength svc then output
      else take (maxOutputLength svc) output @ truncation_marker)"

definition blocked_message :: jsstring where
  "blocked_message = str ''Command blocked for safety reasons''"

definition exec_options_of :: "'w host \<Rightarrow> TerminalService \<Rightarrow> options \<Rightarrow> exec_options" where
  "exec_options_of h svc opts =
     \<lparr>x_cwd = or_string (cwd opts) (projectRoot svc),
      x_timeout = or_default (opt_timeout opts) (timeout svc),
      x_maxBuffer = 1024 * 1024 * 10,
      x_env = process_env h @ env opts\<rparr>"

text \<open>
  \<open>executeCommand\<close>. The clock is read on entry and once more on the path taken. The
  blocked return sits before the call of \<open>execAsync\<close>; a resolved promise gives the
  success object and a rejected one the object of the \<open>catch\<close> block.
\<close>

definition executeCommand ::
  "'w host \<Rightarrow> TerminalService \<Rightarrow> jsstring \<Rightarrow> options \<Rightarrow> 'w state \<Rightarrow> result \<times> 'w state" where
  "executeCommand h svc cmd opts s =
     (let (startTime, w1) = Date_now h (world s) in
      if \<not> skipSafetyCheck opts \<and> \<not> isCommandSafe svc cmd then
        (let (t, w2) = Date_now h w1 in
         (\<lparr>command = cmd, stdout = [], stderr = blocked_message, exitCode = CNum 1,
           duration = t - startTime, blocked = True, truncated = False, error = False\<rparr>,
          s\<lparr>world := w2\<rparr>))
      else
        (let (outcome, w2) = execAsync h cmd (exec_options_of h svc opts) w1;
             (t, w3) = Date_now h w2;
             s' = s\<lparr>world := w3, spawned := spawned s @ [cmd]\<rparr>
         in case outcome of
              Resolved out err \<Rightarrow>
                (\<lparr>command = cmd, stdout = truncateOutput svc out,
                  stderr = truncateOutput svc err, exitCode = CNum 0,
                  duration = t - startTime, blocked = False,
                  truncated = (maxOutputLength svc < length out \<or>
                               maxOutputLength svc < length err),
                  error = False\<rparr>, s')
            | Rejected e \<Rightarrow>
                (\<lparr>command = cmd, stdout = truncateOutput svc (or_string (e_stdout e) []),
                  stderr = truncateOutput svc (or_string (e_stderr e) (e_message e)),
                  exitCode = code_or_1 (e_code e),
                  duration = t - startTime, blocked = False, truncated = False,
                  error = True\<rparr>, s')))"

text \<open>
  \<open>executeCommands\<close>: the \<open>for\<close> loop over the commands, with the array \<open>results\<close> as
  accumulator; \<open>break\<close> returns what has been collected.
\<close>

fun executeCommands_loop ::
  "'w host \<Rightarrow> TerminalService \<Rightarrow> options \<Rightarrow> jsstring list \<Rightarrow> result list \<Rightarrow> 'w state
   \<Rightarrow> result list \<times> 'w state" where
  "executeCommands_loop h svc opts [] results s = (results, s)"
| "executeCommands_loop h svc opts (cmd # rest) results s =
     (case executeCommand h svc cmd opts s of
        (r, s') \<Rightarrow>
          if exitCode r \<noteq> CNum 0 \<and> \<not> continueOnError opts then (results @ [r], s')
          else executeCommands_loop h svc opts rest (results @ [r]) s')"

definition executeCommands ::
  "'w host \<Rightarrow> TerminalService \<Rightarrow> jsstring list \<Rightarrow> options \<Rightarrow> 'w state
   \<Rightarrow> result list \<times> 'w state" where
  "executeCommands h svc commands opts s = executeCommands_loop h svc opts commands [] s"


section \<open>Meta-commands\<close>

text \<open>The \<open>context\<close> argument of the meta-commands.\<close>

record meta_context =
  searchPath :: "jsstring option"
  ctx_projectRoot :: "jsstring option"

text \<open>
  The array \<open>searchCommands\<close>, built by the same three template literals in
  \<open>TerminalService.claudeSearch\<close> and in \<open>ClaudeCodeAIProvider.claudeSearch\<close>.
\<close>

definition DQUOTE :: jsstring where "DQUOTE = [0x22]"

definition searchCommands :: "jsstring \<Rightarrow> meta_context \<Rightarrow> jsstring list" where
  "searchCommands query ctx =
     [str ''grep -r '' @ DQUOTE @ query @ DQUOTE @ str '' ''
        @ or_string (searchPath ctx) (str ''.''),
      str ''find '' @ or_string (searchPath ctx) (str ''.'') @ str '' -name '' @ DQUOTE
        @ str ''*'' @ query @ str ''*'' @ DQUOTE,
      str ''git log --grep='' @ DQUOTE @ query @ DQUOTE @ str '' --oneline -10'']"

record search_entry =
  se_command :: jsstring
  matches :: nat
  preview :: jsstring

record search_result =
  sr_command :: jsstring
  results :: "search_entry list"

text \<open>The callback of \<open>results.map\<close>, the same in both classes.\<close>

definition search_entry_of :: "result \<Rightarrow> search_entry" where
  "search_entry_of r =
     \<lparr>se_command = command r,
      matches = length (filter (\<lambda>line. trim line \<noteq> []) (split LF (stdout r))),
      preview = join [LF] (take 5 (split LF (stdout r)))\<rparr>"

definition TerminalService_claudeSearch ::
  "'w host \<Rightarrow> TerminalService \<Rightarrow> jsstring \<Rightarrow> meta_context \<Rightarrow> 'w state
   \<Rightarrow> search_result \<times> 'w state" where
  "TerminalService_claudeSearch h svc query ctx s =
     (case executeCommands h svc (searchCommands query ctx)
             (no_options\<lparr>continueOnError := True\<rparr>) s of
        (rs, s') \<Rightarrow>
          (\<lparr>sr_command = str ''claude-search '' @ query,
            results = map search_entry_of rs\<rparr>, s'))"

text \<open>
  The provider's methods call the singleton \<open>terminalService\<close>, here the argument
  \<open>svc\<close>.
\<close>

definition Provider_claudeSearch ::
  "'w host \<Rightarrow> TerminalService \<Rightarrow> jsstring \<Rightarrow> meta_context \<Rightarrow> 'w state
   \<Rightarrow> search_result \<times> 'w state" where
  "Provider_claudeSearch h svc query ctx s =
     (case executeCommands h svc (searchCommands query ctx)
             (no_options\<lparr>continueOnError := True, cwd := ctx_projectRoot ctx\<rparr>) s of
        (rs, s') \<Rightarrow>
          (\<lparr>sr_command = str ''claude-search '' @ query,
            results = map search_entry_of rs\<rparr>, s'))"

text \<open>
  What \<open>claudeExplain\<close> returns: the object with \<open>explanation\<close>, or the object with
  \<open>error\<close> and \<open>stderr\<close>.
\<close>

datatype explain_result =
  Explanation jsstring jsstring
| ExplainError jsstring jsstring jsstring

text \<open>\<open>TerminalService.claudeExplain\<close> returns a fixed text and calls nothing.\<close>

definition TerminalService_claudeExplain :: "jsstring \<Rightarrow> meta_context \<Rightarrow> explain_result" where
  "TerminalService_claudeExplain target ctx =
     Explanation (str ''claude-explain '' @ target)
       (str ''This command would use AI to explain the specified code or file'')"

definition explain_params :: "jsstring \<Rightarrow> generate_params" where
  "explain_params content =
     \<lparr>systemPrompt = str
        ''You are a code explanation expert. Explain the following code clearly and concisely.'',
      prompt = str ''Explain this code:\<newline>\<newline>```\<newline>'' @ content @ str ''\<newline>```'',
      maxTokens = 500\<rparr>"

text \<open>
  \<open>ClaudeCodeAIProvider.claudeExplain\<close>. Its call of \<open>this.generateText\<close> passes no
  \<open>terminalCommands\<close>, so the override returns the parent's \<open>generateText\<close> on the
  same parameters at once. An exception of the parent is not caught: the promise is
  rejected (\<open>Inl\<close>).
\<close>

definition Provider_claudeExplain ::
  "'w host \<Rightarrow> TerminalService \<Rightarrow> jsstring \<Rightarrow> meta_context \<Rightarrow> 'w state
   \<Rightarrow> (jsstring + explain_result) \<times> 'w state" where
  "Provider_claudeExplain h svc target ctx s =
     (case executeCommand h svc (str ''cat '' @ target)
             (no_options\<lparr>cwd := ctx_projectRoot ctx\<rparr>) s of
        (fileContent, s1) \<Rightarrow>
          if exitCode fileContent = CNum 0 then
            (case super_generateText h (explain_params (stdout fileContent)) (world s1) of
               (outcome, w2) \<Rightarrow>
                 (case outcome of
                    Generated text \<Rightarrow> Inr (Explanation (str ''claude-explain '' @ target) text)
                  | GenerateFailed e \<Rightarrow> Inl e,
                  s1\<lparr>world := w2,
                     generated := generated s1 @ [explain_params (stdout fileContent)]\<rparr>))
          else
            (Inr (ExplainError (str ''claude-explain '' @ target) (str ''Could not read file'')
                    (stderr fileContent)), s1))"

section \<open>Formatters\<close>

text \<open>
  A number in a template literal: the decimal digits of an integer, as JavaScript
  prints every integer of magnitude below \<open>10^21\<close>.
\<close>

fun digits :: "nat \<Rightarrow> jsstring" where
  "digits n = (if n < 10 then [48 + n] else digits (n div 10) @ [48 + n mod 10])"

declare digits.simps [simp del]

definition Number_toString :: "int \<Rightarrow> jsstring" where
  "Number_toString i = (if i < 0 then 0x2D # digits (nat (- i)) else digits (nat i))"

fun code_toString :: "js_code \<Rightarrow> jsstring" where
  "code_toString (CNum n) = Number_toString n"
| "code_toString (CStr s) = s"
| "code_toString CNull = str ''null''"

text \<open>
  The callback of \<open>results.map\<close> in \<open>formatTerminalResults\<close>; \<open>index\<close> counts from 0.
\<close>

definition formatTerminalResult :: "result \<Rightarrow> nat \<Rightarrow> jsstring" where
  "formatTerminalResult r index =
     str ''### Command '' @ Number_toString (int index + 1) @ str '': `'' @ command r
       @ str ''`\<newline>''
     @ (if blocked r then
          str ''**Status:** Blocked for safety\<newline>''
          @ str ''**Reason:** '' @ stderr r @ str ''\<newline>''
        else
          str ''**Exit Code:** '' @ code_toString (exitCode r) @ str ''\<newline>''
          @ (if stdout r \<noteq> [] then
               str ''**Output:**\<newline>```\<newline>'' @ stdout r @ str ''\<newline>```\<newline>''
             else [])
          @ (if stderr r \<noteq> [] \<and> exitCode r \<noteq> CNum 0 then
               str ''**Error:**\<newline>```\<newline>'' @ stderr r @ str ''\<newline>```\<newline>''
             else []))
     @ (if truncated r then str ''*Note: Output was truncated*\<newline>'' else [])"

definition formatTerminalResults :: "result list \<Rightarrow> jsstring" where
  "formatTerminalResults rs =
     join [LF] (map2 formatTerminalResult rs [0 ..< length rs])"

text \<open>
  The colour functions of the package \<open>chalk\<close>, which wrap a text in escape codes or
  leave it as it is, depending on the terminal.
\<close>

record chalk =
  green :: "jsstring \<Rightarrow> jsstring"
  red :: "jsstring \<Rightarrow> jsstring"
  gray :: "jsstring \<Rightarrow> jsstring"
  cyan :: "jsstring \<Rightarrow> jsstring"
  yellow :: "jsstring \<Rightarrow> jsstring"

definition CHECK_MARK :: jsstring where "CHECK_MARK = [0x2713]"
definition BALLOT_X :: jsstring where "BALLOT_X = [0x2717]"

text \<open>\<open>TerminalService.formatResult\<close>, for one result.\<close>

definition formatResult :: "chalk \<Rightarrow> result \<Rightarrow> jsstring" where
  "formatResult ch r =
     (if exitCode r = CNum 0 then green ch CHECK_MARK else red ch BALLOT_X)
     @ [SPACE] @ cyan ch (command r) @ [SPACE]
     @ gray ch (str ''('' @ Number_toString (duration r) @ str ''ms)'') @ [LF]
     @ (if stdout r \<noteq> [] then gray ch (str ''Output:\<newline>'') @ stdout r @ [LF] else [])
     @ (if stderr r \<noteq> [] then red ch (str ''Error:\<newline>'') @ stderr r @ [LF] else [])
     @ (if truncated r then yellow ch (str ''(Output was truncated)\<newline>'') else [])"

section \<open>What the specification says of the renderings\<close>

text \<open>
  The number of the lines of a text that are not blank, counted in one pass over the
  code units: a line ends at a line feed, and it is not blank when it holds a code
  unit that trimming leaves. The flag says whether the line read so far holds one.
\<close>

fun nonblank_lines_from :: "bool \<Rightarrow> jsstring \<Rightarrow> nat" where
  "nonblank_lines_from seen [] = (if seen then 1 else 0)"
| "nonblank_lines_from seen (c # cs) =
     (if c = LF then (if seen then 1 else 0) + nonblank_lines_from False cs
      else nonblank_lines_from (if isTrimmable c then seen else True) cs)"

definition nonblank_lines :: "jsstring \<Rightarrow> nat" where
  "nonblank_lines s = nonblank_lines_from False s"

text \<open>
  The parts a rendering of one result is made of, and the parts each of the two
  formatters is to give for a result, in order. For the prompt (\<open>formatTerminalResults\<close>):
  a heading with the position and the command; for a blocked result the notice with the
  reason; otherwise the exit code, the output if there is any, the error text if there
  is any and the exit code is not 0; at last the truncation note if the flag is set.
  For the terminal (\<open>formatResult\<close>): a line with the status indicator, the command and
  the duration; the output if there is any; the error text if there is any; the
  truncation note if the flag is set.
\<close>

datatype segment =
  Heading nat jsstring
| StatusLine bool jsstring int
| BlockedNotice jsstring
| ExitCodeLine js_code
| OutputBlock jsstring
| ErrorBlock jsstring
| TruncationNote

definition prompt_segments :: "result \<Rightarrow> nat \<Rightarrow> segment list" where
  "prompt_segments r index =
     [Heading (index + 1) (command r)]
     @ (if blocked r then [BlockedNotice (stderr r)]
        else [ExitCodeLine (exitCode r)]
             @ (if stdout r = [] then [] else [OutputBlock (stdout r)])
             @ (if stderr r = [] \<or> exitCode r = CNum 0 then [] else [ErrorBlock (stderr r)]))
     @ (if truncated r then [TruncationNote] else [])"

definition terminal_segments :: "result \<Rightarrow> segment list" where
  "terminal_segments r =
     [StatusLine (exitCode r = CNum 0) (command r) (duration r)]
     @ (if stdout r = [] then [] else [OutputBlock (stdout r)])
     @ (if stderr r = [] then [] else [ErrorBlock (stderr r)])
     @ (if truncated r then [TruncationNote] else [])"

text \<open>The text of a part in the prompt, and in the terminal.\<close>

fun prompt_text :: "segment \<Rightarrow> jsstring" where
  "prompt_text (Heading n c) =
     str ''### Command '' @ Number_toString (int n) @ str '': `'' @ c @ str ''`\<newline>''"
| "prompt_text (StatusLine ok c d) = []"
| "prompt_text (BlockedNotice reason) =
     str ''**Status:** Blocked for safety\<newline>'' @ str ''**Reason:** '' @ reason
     @ str ''\<newline>''"
| "prompt_text (ExitCodeLine c) = str ''**Exit Code:** '' @ code_toString c @ str ''\<newline>''"
| "prompt_text (OutputBlock out) =
     str ''**Output:**\<newline>```\<newline>'' @ out @ str ''\<newline>```\<newline>''"
| "prompt_text (ErrorBlock err) =
     str ''**Error:**\<newline>```\<newline>'' @ err @ str ''\<newline>```\<newline>''"
| "prompt_text TruncationNote = str ''*Note: Output was truncated*\<newline>''"

fun terminal_text :: "chalk \<Rightarrow> segment \<Rightarrow> jsstring" where
  "terminal_text ch (Heading n c) = []"
| "terminal_text ch (StatusLine ok c d) =
     (if ok then green ch CHECK_MARK else red ch BALLOT_X) @ [SPACE] @ cyan ch c @ [SPACE]
     @ gray ch (str ''('' @ Number_toString d @ str ''ms)'') @ [LF]"
| "terminal_text ch (BlockedNotice reason) = []"
| "terminal_text ch (ExitCodeLine c) = []"
| "terminal_text ch (OutputBlock out) = gray ch (str ''Output:\<newline>'') @ out @ [LF]"
| "terminal_text ch (ErrorBlock err) = red ch (str ''Error:\<newline>'') @ err @ [LF]"
| "terminal_text ch TruncationNote = yellow ch (str ''(Output was truncated)\<newline>'')"

section \<open>A scripted host\<close>

text \<open>
  A concrete host to run the definitions on: the world is the clock in milliseconds,
  every reading of the clock takes one millisecond, a command that starts with \<open>ls\<close>,
  with \<open>grep\<close> or with \<open>cat a\<close> succeeds, and every other command fails with exit code 2 and
  more output than a budget of five code units holds.
\<close>

definition scripted_exec :: "jsstring \<Rightarrow> exec_options \<Rightarrow> int \<Rightarrow> exec_outcome \<times> int" where
  "scripted_exec cmd xo w =
     (if startsWith cmd (str ''ls'') \<or> startsWith cmd (str ''grep'') then
        (Resolved (str ''a.txt\<newline>\<newline>b.txt\<newline>'') [], w + 7)
      else if startsWith cmd (str ''cat a'') then (Resolved (str ''let x = 1;'') [], w + 2)
      else (Rejected \<lparr>e_stdout = Some (str ''partial''), e_stderr = Some (str ''No such file''),
                      e_message = str ''Command failed'', e_code = CNum 2\<rparr>, w + 3))"

definition scripted_now :: "int \<Rightarrow> int \<times> int" where
  "scripted_now w = (w, w + 1)"

definition scripted_generateText :: "generate_params \<Rightarrow> int \<Rightarrow> generate_outcome \<times> int" where
  "scripted_generateText p w = (Generated (str ''It lists files.''), w + 50)"

definition scripted_host :: "int host" where
  "scripted_host =
     \<lparr>Date_now = scripted_now, execAsync = scripted_exec, process_env = [],
      super_generateText = scripted_generateText\<rparr>"

text \<open>A host on which every command succeeds and prints the one line \<open>abcdefgh\<close>.\<close>

definition one_line_exec :: "jsstring \<Rightarrow> exec_options \<Rightarrow> int \<Rightarrow> exec_outcome \<times> int" where
  "one_line_exec cmd xo w = (Resolved (str ''abcdefgh'') [], w + 1)"

definition one_line_host :: "int host" where
  "one_line_host =
     \<lparr>Date_now = scripted_now, execAsync = one_line_exec, process_env = [],
      super_generateText = scripted_generateText\<rparr>"

definition initial_state :: "int state" where
  "initial_state = \<lparr>world = 0, spawned = [], generated = []\<rparr>"

definition default_service :: TerminalService where
  "default_service = new_TerminalService (str ''/project'') no_service_options"

definition small_service :: TerminalService where
  "small_service =
     new_TerminalService (str ''/project'') (no_service_options\<lparr>so_maxOutputLength := Some 5\<rparr>)"

definition no_context :: meta_context where
  "no_context = \<lparr>searchPath = None, ctx_projectRoot = None\<rparr>"

definition plain_chalk :: chalk where
  "plain_chalk = \<lparr>green = id, red = id, gray = id, cyan = id, yellow = id\<rparr>"

text \<open>Two results to render: a success with a warning on stderr, and a blocked one.\<close>

definition sample_result :: result where
  "sample_result =
     \<lparr>command = str ''ls'', stdout = str ''a.txt'', stderr = str ''warning'', exitCode = CNum 0,
      duration = 12, blocked = False, truncated = False, error = False\<rparr>"

definition sample_blocked :: result where
  "sample_blocked =
     \<lparr>command = str ''sudo ls'', stdout = [], stderr = blocked_message, exitCode = CNum 1,
      duration = 0, blocked = True, truncated = False, error = False\<rparr>"

section \<open>The matcher decides the language of a pattern\<close>

lemma match_here_Star_run:
  "list_all (atom_matches ic a) u \<Longrightarrow> match_here ic r t \<Longrightarrow> match_here ic (Star a # r) (u @ t)"
proof (induction u)
  case Nil
  then show ?case by (cases t) simp_all
next
  case (Cons x xs)
  then show ?case by simp
qed

lemma accepts_match_here: "accepts ic p u \<Longrightarrow> match_here ic p (u @ v)"
proof (induction rule: accepts.induct)
  case accepts_Nil
  show ?case by simp
next
  case (accepts_One a c r s)
  then show ?case by simp
next
  case (accepts_Star a u r s)
  then show ?case using match_here_Star_run [of ic a u r "s @ v"] by simp
next
  case (accepts_Plus u a r s)
  then obtain x xs where u: "u = x # xs" by (cases u) auto
  with accepts_Plus show ?case
    using match_here_Star_run [of ic a xs r "s @ v"] by simp
qed

lemma match_here_accepts: "match_here ic p s \<Longrightarrow> \<exists>u v. s = u @ v \<and> accepts ic p u"
proof (induction ic p s rule: match_here.induct)
  case (1 ic s)
  show ?case using accepts_Nil [of ic] by auto
next
  case (2 ic a r)
  then show ?case by simp
next
  case (3 ic a r c cs)
  then obtain u v where "cs = u @ v" "accepts ic r u" "atom_matches ic a c"
    by (auto split: if_splits)
  then have "c # cs = (c # u) @ v" "accepts ic (One a # r) (c # u)"
    by (auto intro: accepts_One)
  then show ?case by blast
next
  case (4 ic a r)
  then obtain u v where uv: "[] = u @ v" "accepts ic r u" by auto
  have "accepts ic (Star a # r) ([] @ u)"
    using accepts_Star [of ic a "[]" r u] uv by simp
  then show ?case using uv by auto
next
  case (5 ic a r c cs)
  show ?case
  proof (cases "match_here ic r (c # cs)")
    case True
    then obtain u v where uv: "c # cs = u @ v" "accepts ic r u" using 5 by auto
    have "accepts ic (Star a # r) ([] @ u)"
      using accepts_Star [of ic a "[]" r u] uv by simp
    then show ?thesis using uv by auto
  next
    case False
    then have m: "atom_matches ic a c" "match_here ic (Star a # r) cs"
      using 5 by (auto split: if_splits)
    then obtain u v where uv: "cs = u @ v" "accepts ic (Star a # r) u"
      using 5 False by auto
    from uv(2) obtain w s where w: "u = w @ s" "list_all (atom_matches ic a) w" "accepts ic r s"
      by (cases rule: accepts.cases) auto
    have "accepts ic (Star a # r) ((c # w) @ s)"
      using accepts_Star [of ic a "c # w" r s] w m by simp
    moreover have "c # cs = ((c # w) @ s) @ v"
      using uv w by simp
    ultimately show ?thesis by blast
  qed
next
  case (6 ic a r)
  then show ?case by simp
next
  case (7 ic a r c cs)
  then have m: "atom_matches ic a c" "match_here ic (Star a # r) cs"
    by (auto split: if_splits)
  then obtain u v where uv: "cs = u @ v" "accepts ic (Star a # r) u"
    using 7 by auto
  from uv(2) obtain w s where w: "u = w @ s" "list_all (atom_matches ic a) w" "accepts ic r s"
    by (cases rule: accepts.cases) auto
  have "accepts ic (Plus a # r) ((c # w) @ s)"
    using accepts_Plus [of "c # w" ic a r s] w m by simp
  moreover have "c # cs = ((c # w) @ s) @ v"
    using uv w by simp
  ultimately show ?case by blast
qed

lemma match_here_iff: "match_here ic p s \<longleftrightarrow> (\<exists>u v. s = u @ v \<and> accepts ic p u)"
  using match_here_accepts accepts_match_here by blast

lemma search_iff:
  "search ic p s \<longleftrightarrow> (\<exists>pre u post. s = pre @ u @ post \<and> accepts ic p u)"
proof (induction s)
  case Nil
  show ?case by (auto simp: match_here_iff)
next
  case (Cons c cs)
  show ?case
  proof
    assume "search ic p (c # cs)"
    then consider "match_here ic p (c # cs)" | "search ic p cs"
      by (auto split: if_splits)
    then show "\<exists>pre u post. c # cs = pre @ u @ post \<and> accepts ic p u"
    proof cases
      case 1
      then obtain u v where "c # cs = [] @ u @ v" "accepts ic p u"
        by (auto simp: match_here_iff)
      then show ?thesis by blast
    next
      case 2
      then obtain pre u post where "cs = pre @ u @ post" "accepts ic p u"
        using Cons.IH by auto
      then have "c # cs = (c # pre) @ u @ post" "accepts ic p u" by auto
      then show ?thesis by blast
    qed
  next
    assume "\<exists>pre u post. c # cs = pre @ u @ post \<and> accepts ic p u"
    then obtain pre u post where d: "c # cs = pre @ u @ post" "accepts ic p u" by auto
    show "search ic p (c # cs)"
    proof (cases pre)
      case Nil
      then have "match_here ic p (c # cs)"
        using d accepts_match_here [of ic p u post] by simp
      then show ?thesis by simp
    next
      case (Cons x xs)
      then have "cs = xs @ u @ post" using d by simp
      then have "search ic p cs" using Cons.IH d(2) by auto
      then show ?thesis by simp
    qed
  qed
qed

lemma test_iff:
  "test re s \<longleftrightarrow>
     (\<exists>pre u post. s = pre @ u @ post \<and> accepts (ignoreCase re) (items re) u)"
  by (simp add: test_def search_iff)

section \<open>Strings and constants\<close>

lemma split_from_not_Nil: "split_from sep piece s \<noteq> []"
  by (induction s arbitrary: piece) auto

lemma split_not_Nil: "split sep s \<noteq> []"
  by (simp add: split_def split_from_not_Nil)

lemma str_eq_iff: "str a = str b \<longleftrightarrow> a = b"
  by (simp add: str_def inj_map_eq_map inj_of_char)

lemma str_Nil: "str [] = []"
  by (simp add: str_def)

lemma str_eq_Nil: "str a = [] \<longleftrightarrow> a = []"
  by (simp add: str_def)

lemma str_append: "str a @ str b = str (a @ b)"
  by (simp add: str_def)

lemma length_str: "length (str a) = length a"
  by (simp add: str_def)

lemma take_str: "take n (str a) = str (take n a)"
  by (simp add: str_def take_map)

lemma startsWith_str: "startsWith (str a) (str b) \<longleftrightarrow> take (length b) a = b"
  by (simp add: startsWith_def str_def take_map inj_map_eq_map inj_of_char)

lemma str_in_map_str: "str a \<in> set (map str L) \<longleftrightarrow> a \<in> set L"
  by (auto simp: str_def inj_map_eq_map inj_of_char)

lemma length_truncation_marker: "length truncation_marker = 23"
  by (simp add: truncation_marker_def str_def)

lemma length_blocked_message: "length blocked_message = 34"
  by (simp add: blocked_message_def str_def)

lemma dangerousPatterns_eval:
  "dangerousPatterns =
  [\<lparr>items = [One (Lit 114), One (Lit 109), Plus WhiteSpaceClass, One (Lit 45), One (Lit 114),
              One (Lit 102)], ignoreCase = True\<rparr>,
   \<lparr>items = [One (Lit 62), Star WhiteSpaceClass, One (Lit 47), One (Lit 100), One (Lit 101),
              One (Lit 118), One (Lit 47), One (Lit 110), One (Lit 117), One (Lit 108),
              One (Lit 108)], ignoreCase = False\<rparr>,
   \<lparr>items = [One (Lit 115), One (Lit 117), One (Lit 100), One (Lit 111)], ignoreCase = True\<rparr>,
   \<lparr>items = [One (Lit 99), One (Lit 104), One (Lit 109), One (Lit 111), One (Lit 100),
              Plus WhiteSpaceClass, One (Lit 55), One (Lit 55), One (Lit 55)], ignoreCase = True\<rparr>,
   \<lparr>items = [One (Lit 99), One (Lit 117), One (Lit 114), One (Lit 108), Star AnyChar,
              One (Lit 124), Star AnyChar, One (Lit 115), One (Lit 104)], ignoreCase = True\<rparr>,
   \<lparr>items = [One (Lit 119), One (Lit 103), One (Lit 101), One (Lit 116), Star AnyChar,
              One (Lit 124), Star AnyChar, One (Lit 115), One (Lit 104)], ignoreCase = True\<rparr>]"
  by (simp add: dangerousPatterns_def lits_def)

lemmas deny_eval = matchesDangerousPattern_def dangerousPatterns_eval test_def str_def
  isTrimmable_def isWhiteSpace_def isLineTerminator_def canonicalize_def

lemmas base_eval = baseCommand_def split_def trim_def SPACE_def str_def
  isTrimmable_def isWhiteSpace_def isLineTerminator_def

lemma default_safeCommands:
  "safeCommands default_service = map str
        [''ls'', ''pwd'', ''echo'', ''cat'', ''grep'', ''find'', ''which'',
         ''npm list'', ''npm run'', ''yarn list'', ''yarn run'',
         ''git status'', ''git log'', ''git branch'', ''git diff'', ''git --version'',
         ''node --version'', ''npm --version'', ''yarn --version'']"
  by (simp add: default_service_def new_TerminalService_def)

lemma small_safeCommands: "safeCommands small_service = safeCommands default_service"
  by (simp add: default_service_def small_service_def new_TerminalService_def)

lemma default_maxOutputLength: "maxOutputLength default_service = 10000"
  by (simp add: default_service_def new_TerminalService_def no_service_options_def or_default_def)

lemma small_maxOutputLength: "maxOutputLength small_service = 5"
  by (simp add: small_service_def new_TerminalService_def no_service_options_def or_default_def)

section \<open>The commands of the examples\<close>

lemma deny_cat_sudo: "matchesDangerousPattern (str ''cat sudo'')"
  by (simp add: deny_eval)

lemma base_cat_sudo: "baseCommand (str ''cat sudo'') = str ''cat''"
  by (simp add: base_eval)

lemma prefix_cat_sudo: "startsWithSafeCommand default_service (str ''cat sudo'')"
  by (simp add: startsWithSafeCommand_def default_safeCommands startsWith_str)

lemma deny_docker: "\<not> matchesDangerousPattern (str ''docker ps'')"
  by (simp add: deny_eval)

lemma base_docker: "baseCommand (str ''docker ps'') = str ''docker''"
  by (simp add: base_eval)

lemma prefix_docker: "\<not> startsWithSafeCommand default_service (str ''docker ps'')"
  by (simp add: startsWithSafeCommand_def default_safeCommands startsWith_str)

lemma unsafe_docker: "\<not> isCommandSafe default_service (str ''docker ps'')"
  by (simp add: isCommandSafe_def deny_docker base_docker prefix_docker default_safeCommands
      str_eq_iff)

lemma deny_catastrophe: "\<not> matchesDangerousPattern (str ''catastrophe --now'')"
  by (simp add: deny_eval)

lemma base_catastrophe: "baseCommand (str ''catastrophe --now'') = str ''catastrophe''"
  by (simp add: base_eval)

section \<open>One command\<close>

lemma length_truncateOutput:
  "length (truncateOutput svc out) \<le> maxOutputLength svc + length truncation_marker"
  by (simp add: truncateOutput_def)

lemma executeCommand_command: "command (fst (executeCommand h svc cmd opts s)) = cmd"
  by (simp add: executeCommand_def Let_def split: prod.splits exec_outcome.splits)

lemma executeCommand_blocked_iff:
  "blocked (fst (executeCommand h svc cmd opts s)) =
     (\<not> skipSafetyCheck opts \<and> \<not> isCommandSafe svc cmd)"
  by (simp add: executeCommand_def Let_def split: prod.splits exec_outcome.splits)

lemma executeCommand_spawned:
  "spawned (snd (executeCommand h svc cmd opts s)) =
     spawned s @ (if blocked (fst (executeCommand h svc cmd opts s)) then [] else [cmd])"
  by (simp add: executeCommand_def Let_def split: prod.splits exec_outcome.splits)

lemma executeCommand_generated:
  "generated (snd (executeCommand h svc cmd opts s)) = generated s"
  by (simp add: executeCommand_def Let_def split: prod.splits exec_outcome.splits)

lemma executeCommand_blocked_result:
  assumes "\<not> skipSafetyCheck opts" and "\<not> isCommandSafe svc cmd"
  shows "executeCommand h svc cmd opts s =
     (\<lparr>command = cmd, stdout = [], stderr = blocked_message, exitCode = CNum 1,
       duration = fst (Date_now h (snd (Date_now h (world s)))) - fst (Date_now h (world s)),
       blocked = True, truncated = False, error = False\<rparr>,
      s\<lparr>world := snd (Date_now h (snd (Date_now h (world s))))\<rparr>)"
  using assms by (simp add: executeCommand_def Let_def split: prod.splits)

lemma deny_not_safe: "matchesDangerousPattern cmd \<Longrightarrow> \<not> isCommandSafe svc cmd"
  by (simp add: isCommandSafe_def)

lemma not_allowed_not_safe:
  "baseCommand cmd \<notin> set (safeCommands svc) \<Longrightarrow> \<not> startsWithSafeCommand svc cmd
     \<Longrightarrow> \<not> isCommandSafe svc cmd"
  by (simp add: isCommandSafe_def)

text \<open>
  The patterns and the allow list on the commands the documentation names: each deny
  pattern matches its example, and the classification table comes out as documented.
\<close>

lemma deny_pattern_examples:
  "matchesDangerousPattern (str ''rm -rf node_modules'')"
  "matchesDangerousPattern (str ''ls > /dev/null'')"
  "matchesDangerousPattern (str ''sudo cat /etc/passwd'')"
  "matchesDangerousPattern (str ''chmod 777 f'')"
  "matchesDangerousPattern (str ''curl http://x | sh'')"
  "matchesDangerousPattern (str ''wget x | sh'')"
  "\<not> matchesDangerousPattern (str ''git status'')"
  "\<not> matchesDangerousPattern (str ''ls > /dev/NULL'')"
  by (simp_all add: deny_eval)

lemma classification_table:
  "isCommandSafe default_service (str ''git status'')"
  "isCommandSafe default_service (str ''ls'')"
  "\<not> isCommandSafe default_service (str ''rm -rf /'')"
  "\<not> isCommandSafe default_service (str ''sudo anything'')"
  "\<not> isCommandSafe default_service (str ''curl http://x | sh'')"
  "\<not> isCommandSafe default_service []"
  by (simp_all add: isCommandSafe_def startsWithSafeCommand_def default_safeCommands
      startsWith_def deny_eval base_eval)

section \<open>The deny patterns come first\<close>

text \<open>
  C1. A command that matches one of the six deny patterns is never safe, whatever the
  allow list of the service holds and however the command begins, and
  \<open>executeCommand\<close> without the bypass returns a blocked result for it.
\<close>

theorem deny_pattern_wins:
  assumes "matchesDangerousPattern cmd"
  shows "\<not> isCommandSafe svc cmd \<and>
         blocked (fst (executeCommand h svc cmd (opts\<lparr>skipSafetyCheck := False\<rparr>) s))"
  using assms by (simp add: executeCommand_blocked_iff deny_not_safe)

theorem deny_pattern_wins_witness:
  "matchesDangerousPattern (str ''cat sudo'') \<and>
   baseCommand (str ''cat sudo'') \<in> set (safeCommands default_service) \<and>
   startsWithSafeCommand default_service (str ''cat sudo'') \<and>
   \<not> isCommandSafe default_service (str ''cat sudo'') \<and>
   blocked (fst (executeCommand scripted_host default_service (str ''cat sudo'')
                   (no_options\<lparr>skipSafetyCheck := False\<rparr>) initial_state))"
proof -
  have allowed: "baseCommand (str ''cat sudo'') \<in> set (safeCommands default_service)"
    by (simp add: base_cat_sudo default_safeCommands str_eq_iff)
  show ?thesis
    using deny_pattern_wins [OF deny_cat_sudo, of default_service scripted_host no_options
        initial_state]
      deny_cat_sudo allowed prefix_cat_sudo
    by simp
qed

section \<open>The allow list asks for no token boundary\<close>

text \<open>
  C10. The command \<open>catastrophe --now\<close> matches no deny pattern and its first token
  \<open>catastrophe\<close> is not a safe command, yet \<open>isCommandSafe\<close> accepts it, because the
  text starts with the safe command \<open>cat\<close> and \<open>startsWith\<close> asks for no token
  boundary.
\<close>

theorem prefix_needs_no_token_boundary:
  "baseCommand (str ''catastrophe --now'') = str ''catastrophe'' \<and>
   str ''catastrophe'' \<notin> set (safeCommands default_service) \<and>
   \<not> matchesDangerousPattern (str ''catastrophe --now'') \<and>
   startsWith (str ''catastrophe --now'') (str ''cat'') \<and>
   str ''cat'' \<in> set (safeCommands default_service) \<and>
   isCommandSafe default_service (str ''catastrophe --now'')"
proof -
  have prefix: "startsWithSafeCommand default_service (str ''catastrophe --now'')"
    by (simp add: startsWithSafeCommand_def default_safeCommands startsWith_str)
  have token: "str ''catastrophe'' \<notin> set (safeCommands default_service)"
    by (simp add: default_safeCommands str_eq_iff)
  have cat: "str ''cat'' \<in> set (safeCommands default_service)"
    by (simp add: default_safeCommands str_eq_iff)
  have safe: "isCommandSafe default_service (str ''catastrophe --now'')"
    by (simp add: isCommandSafe_def deny_catastrophe prefix)
  show ?thesis
    using base_catastrophe token deny_catastrophe cat safe by (simp add: startsWith_str)
qed

section \<open>Blocked results\<close>

text \<open>
  C4. A result of \<open>executeCommand\<close> with \<open>blocked\<close> set has exit code 1, so not 0, and
  an empty stdout, and on the way to it nothing was handed to \<open>execAsync\<close> or to the
  text generation: the host was asked for the time twice and for nothing else.
\<close>

theorem blocked_result_never_spawns:
  assumes "executeCommand h svc cmd opts s = (r, s')" and "blocked r"
  shows "exitCode r = CNum 1 \<and> exitCode r \<noteq> CNum 0 \<and> stdout r = [] \<and>
         spawned s' = spawned s \<and> generated s' = generated s \<and>
         world s' = snd (Date_now h (snd (Date_now h (world s))))"
proof -
  have b: "blocked (fst (executeCommand h svc cmd opts s))"
    using assms by simp
  then have "\<not> skipSafetyCheck opts" and "\<not> isCommandSafe svc cmd"
    by (simp_all add: executeCommand_blocked_iff)
  then show ?thesis
    using assms(1) executeCommand_blocked_result [of opts svc cmd h s] by auto
qed

lemma run_docker:
  "executeCommand scripted_host default_service (str ''docker ps'') no_options initial_state =
     (\<lparr>command = str ''docker ps'', stdout = [], stderr = blocked_message, exitCode = CNum 1,
       duration = 1, blocked = True, truncated = False, error = False\<rparr>,
      \<lparr>world = 2, spawned = [], generated = []\<rparr>)"
proof -
  have "\<not> skipSafetyCheck no_options"
    by (simp add: no_options_def)
  then show ?thesis
    using executeCommand_blocked_result [OF _ unsafe_docker, of no_options scripted_host
        initial_state]
    by (simp add: scripted_host_def scripted_now_def initial_state_def)
qed

theorem blocked_result_never_spawns_witness:
  "blocked (fst (executeCommand scripted_host default_service (str ''docker ps'') no_options
                   initial_state)) \<and>
   exitCode (fst (executeCommand scripted_host default_service (str ''docker ps'') no_options
                   initial_state)) \<noteq> CNum 0 \<and>
   stdout (fst (executeCommand scripted_host default_service (str ''docker ps'') no_options
                   initial_state)) = [] \<and>
   spawned (snd (executeCommand scripted_host default_service (str ''docker ps'') no_options
                   initial_state)) = spawned initial_state"
proof -
  have b: "blocked \<lparr>command = str ''docker ps'', stdout = [], stderr = blocked_message,
       exitCode = CNum 1, duration = 1, blocked = True, truncated = False, error = False\<rparr>"
    by simp
  show ?thesis
    using blocked_result_never_spawns [OF run_docker b] by (simp add: run_docker)
qed

section \<open>Commands outside the allow list\<close>

text \<open>
  C5, as the claim states it, fails: the command \<open>docker ps\<close> matches no deny pattern,
  is not bypassed and matches nothing of the allow list, and the result is blocked,
  but its reason (the field \<open>stderr\<close>) is the one fixed text of every blocked result
  and not \<open>not in allow-list\<close>.
\<close>

theorem blocked_reason_counterexample:
  "\<not> matchesDangerousPattern (str ''docker ps'') \<and>
   \<not> skipSafetyCheck no_options \<and>
   baseCommand (str ''docker ps'') \<notin> set (safeCommands default_service) \<and>
   \<not> startsWithSafeCommand default_service (str ''docker ps'') \<and>
   blocked (fst (executeCommand scripted_host default_service (str ''docker ps'') no_options
                   initial_state)) \<and>
   stderr (fst (executeCommand scripted_host default_service (str ''docker ps'') no_options
                   initial_state)) = str ''Command blocked for safety reasons'' \<and>
   stderr (fst (executeCommand scripted_host default_service (str ''docker ps'') no_options
                   initial_state)) \<noteq> str ''not in allow-list''"
proof -
  have token: "baseCommand (str ''docker ps'') \<notin> set (safeCommands default_service)"
    by (simp add: base_docker default_safeCommands str_eq_iff)
  have skip: "\<not> skipSafetyCheck no_options"
    by (simp add: no_options_def)
  show ?thesis
    using deny_docker token prefix_docker skip
    by (simp add: run_docker blocked_message_def str_eq_iff)
qed

text \<open>
  C5, amended. A command that matches no deny pattern, is not bypassed and matches
  nothing of the allow list (its first token is no safe command and it starts with
  none) gets a blocked result: exit code 1, empty stdout, nothing spawned, and as the
  reason the text \<open>Command blocked for safety reasons\<close>.
\<close>

theorem not_allow_listed_is_blocked:
  assumes "\<not> matchesDangerousPattern cmd" and "\<not> skipSafetyCheck opts"
    and "baseCommand cmd \<notin> set (safeCommands svc)" and "\<not> startsWithSafeCommand svc cmd"
    and "executeCommand h svc cmd opts s = (r, s')"
  shows "blocked r \<and> stderr r = str ''Command blocked for safety reasons'' \<and>
         exitCode r = CNum 1 \<and> stdout r = [] \<and> command r = cmd \<and> spawned s' = spawned s"
proof -
  have "\<not> isCommandSafe svc cmd"
    using assms(3,4) by (rule not_allowed_not_safe)
  then show ?thesis
    using assms(2,5) executeCommand_blocked_result [of opts svc cmd h s]
    by (auto simp: blocked_message_def)
qed

theorem not_allow_listed_is_blocked_witness:
  "\<not> matchesDangerousPattern (str ''docker ps'') \<and>
   \<not> skipSafetyCheck no_options \<and>
   baseCommand (str ''docker ps'') \<notin> set (safeCommands default_service) \<and>
   \<not> startsWithSafeCommand default_service (str ''docker ps'') \<and>
   blocked (fst (executeCommand scripted_host default_service (str ''docker ps'') no_options
                   initial_state)) \<and>
   stderr (fst (executeCommand scripted_host default_service (str ''docker ps'') no_options
                   initial_state)) = str ''Command blocked for safety reasons''"
proof -
  have token: "baseCommand (str ''docker ps'') \<notin> set (safeCommands default_service)"
    by (simp add: base_docker default_safeCommands str_eq_iff)
  have skip: "\<not> skipSafetyCheck no_options"
    by (simp add: no_options_def)
  show ?thesis
    using not_allow_listed_is_blocked [OF deny_docker skip token prefix_docker run_docker]
      deny_docker skip token prefix_docker
    by (simp add: run_docker)
qed

section \<open>The loop of executeCommands\<close>

lemma executeCommands_loop_acc:
  "executeCommands_loop h svc opts cmds acc s =
     (acc @ fst (executeCommands_loop h svc opts cmds [] s),
      snd (executeCommands_loop h svc opts cmds [] s))"
proof (induction cmds arbitrary: acc s)
  case Nil
  show ?case by simp
next
  case (Cons cmd rest)
  obtain r s1 where ex: "executeCommand h svc cmd opts s = (r, s1)"
    by (cases "executeCommand h svc cmd opts s")
  show ?case
  proof (cases "exitCode r \<noteq> CNum 0 \<and> \<not> continueOnError opts")
    case True
    then show ?thesis using ex by simp
  next
    case False
    have a: "executeCommands_loop h svc opts rest (acc @ [r]) s1 =
        ((acc @ [r]) @ fst (executeCommands_loop h svc opts rest [] s1),
         snd (executeCommands_loop h svc opts rest [] s1))"
      by (rule Cons.IH)
    have b: "executeCommands_loop h svc opts rest [r] s1 =
        ([r] @ fst (executeCommands_loop h svc opts rest [] s1),
         snd (executeCommands_loop h svc opts rest [] s1))"
      by (rule Cons.IH)
    show ?thesis using ex False a b by auto
  qed
qed

lemma executeCommands_Nil: "executeCommands h svc [] opts s = ([], s)"
  by (simp add: executeCommands_def)

lemma executeCommands_Cons:
  "executeCommands h svc (cmd # rest) opts s =
     (case executeCommand h svc cmd opts s of
        (r, s1) \<Rightarrow>
          if exitCode r \<noteq> CNum 0 \<and> \<not> continueOnError opts then ([r], s1)
          else (case executeCommands h svc rest opts s1 of (rs, s2) \<Rightarrow> (r # rs, s2)))"
proof -
  obtain r s1 where ex: "executeCommand h svc cmd opts s = (r, s1)"
    by (cases "executeCommand h svc cmd opts s")
  have b: "executeCommands_loop h svc opts rest [r] s1 =
        ([r] @ fst (executeCommands_loop h svc opts rest [] s1),
         snd (executeCommands_loop h svc opts rest [] s1))"
    by (rule executeCommands_loop_acc)
  show ?thesis using ex b by (simp add: executeCommands_def case_prod_beta)
qed

lemma executeCommands_commands:
  "map command (fst (executeCommands h svc cmds opts s)) =
     take (length (fst (executeCommands h svc cmds opts s))) cmds"
proof (induction cmds arbitrary: s)
  case Nil
  show ?case by (simp add: executeCommands_Nil)
next
  case (Cons cmd rest)
  have c: "command (fst (executeCommand h svc cmd opts s)) = cmd"
    by (rule executeCommand_command)
  show ?case
    using c Cons.IH [of "snd (executeCommand h svc cmd opts s)"]
    by (simp add: executeCommands_Cons case_prod_beta)
qed

lemma executeCommands_continue_length:
  "continueOnError opts \<Longrightarrow> length (fst (executeCommands h svc cmds opts s)) = length cmds"
  by (induction cmds arbitrary: s) (simp_all add: executeCommands_Nil executeCommands_Cons case_prod_beta)

lemma executeCommands_spawned:
  "spawned (snd (executeCommands h svc cmds opts s)) =
     spawned s @ map command (filter (\<lambda>r. \<not> blocked r) (fst (executeCommands h svc cmds opts s)))"
proof (induction cmds arbitrary: s)
  case Nil
  show ?case by (simp add: executeCommands_Nil)
next
  case (Cons cmd rest)
  have c: "command (fst (executeCommand h svc cmd opts s)) = cmd"
    by (rule executeCommand_command)
  have sp: "spawned (snd (executeCommand h svc cmd opts s)) =
     spawned s @ (if blocked (fst (executeCommand h svc cmd opts s)) then [] else [cmd])"
    by (rule executeCommand_spawned)
  show ?case
    using c sp Cons.IH [of "snd (executeCommand h svc cmd opts s)"]
    by (simp add: executeCommands_Cons case_prod_beta)
qed



section \<open>The commands of the examples, run\<close>

lemma safe_ls: "isCommandSafe default_service (str ''ls'')"
proof -
  have "\<not> matchesDangerousPattern (str ''ls'')"
    by (simp add: deny_eval)
  moreover have "startsWithSafeCommand default_service (str ''ls'')"
    by (simp add: startsWithSafeCommand_def default_safeCommands startsWith_str)
  ultimately show ?thesis
    by (simp add: isCommandSafe_def)
qed

lemma safe_cat_a: "isCommandSafe default_service (str ''cat a.js'')"
proof -
  have "\<not> matchesDangerousPattern (str ''cat a.js'')"
    by (simp add: deny_eval)
  moreover have "startsWithSafeCommand default_service (str ''cat a.js'')"
    by (simp add: startsWithSafeCommand_def default_safeCommands startsWith_str)
  ultimately show ?thesis
    by (simp add: isCommandSafe_def)
qed

lemma safe_cat_b: "isCommandSafe default_service (str ''cat b.js'')"
proof -
  have "\<not> matchesDangerousPattern (str ''cat b.js'')"
    by (simp add: deny_eval)
  moreover have "startsWithSafeCommand default_service (str ''cat b.js'')"
    by (simp add: startsWithSafeCommand_def default_safeCommands startsWith_str)
  ultimately show ?thesis
    by (simp add: isCommandSafe_def)
qed

lemma run_ls:
  "executeCommand scripted_host default_service (str ''ls'') opts
       \<lparr>world = w, spawned = sp, generated = g\<rparr> =
     (\<lparr>command = str ''ls'', stdout = str ''a.txt\<newline>\<newline>b.txt\<newline>'', stderr = [],
       exitCode = CNum 0, duration = 8, blocked = False, truncated = False, error = False\<rparr>,
      \<lparr>world = w + 9, spawned = sp @ [str ''ls''], generated = g\<rparr>)"
  by (simp add: executeCommand_def safe_ls scripted_host_def scripted_now_def scripted_exec_def
      startsWith_str truncateOutput_def default_maxOutputLength length_str)

lemma run_cat_a:
  "executeCommand scripted_host default_service (str ''cat a.js'') opts
       \<lparr>world = w, spawned = sp, generated = g\<rparr> =
     (\<lparr>command = str ''cat a.js'', stdout = str ''let x = 1;'', stderr = [],
       exitCode = CNum 0, duration = 3, blocked = False, truncated = False, error = False\<rparr>,
      \<lparr>world = w + 4, spawned = sp @ [str ''cat a.js''], generated = g\<rparr>)"
  by (simp add: executeCommand_def safe_cat_a scripted_host_def scripted_now_def
      scripted_exec_def startsWith_str truncateOutput_def default_maxOutputLength length_str)

lemma run_cat_b:
  "executeCommand scripted_host default_service (str ''cat b.js'') opts
       \<lparr>world = w, spawned = sp, generated = g\<rparr> =
     (\<lparr>command = str ''cat b.js'', stdout = str ''partial'', stderr = str ''No such file'',
       exitCode = CNum 2, duration = 4, blocked = False, truncated = False, error = True\<rparr>,
      \<lparr>world = w + 5, spawned = sp @ [str ''cat b.js''], generated = g\<rparr>)"
  by (simp add: executeCommand_def safe_cat_b scripted_host_def scripted_now_def
      scripted_exec_def startsWith_str truncateOutput_def default_maxOutputLength length_str
      or_string_def str_eq_Nil)

section \<open>Stopping at the first failure\<close>




section \<open>Continuing on error\<close>

text \<open>
  C6. With \<open>continueOnError\<close> true, \<open>executeCommands\<close> returns one result for each
  command of the input, in input order, whatever the exit codes are; a subprocess is
  spawned for each command that is not blocked.
\<close>

theorem continue_on_error_runs_all:
  assumes "continueOnError opts" and "executeCommands h svc cmds opts s = (rs, s')"
  shows "length rs = length cmds \<and> map command rs = cmds \<and>
         spawned s' = spawned s @ map command (filter (\<lambda>r. \<not> blocked r) rs)"
proof -
  have rs: "rs = fst (executeCommands h svc cmds opts s)"
    and s': "s' = snd (executeCommands h svc cmds opts s)"
    using assms(2) by simp_all
  have len: "length rs = length cmds"
    unfolding rs using assms(1) by (rule executeCommands_continue_length)
  have "map command rs = take (length rs) cmds"
    unfolding rs by (rule executeCommands_commands)
  then have order: "map command rs = cmds"
    using len by simp
  have sp: "spawned s' = spawned s @ map command (filter (\<lambda>r. \<not> blocked r) rs)"
    unfolding rs s' by (rule executeCommands_spawned)
  show ?thesis
    using len order sp by simp
qed

lemma run_cat_b_ls_continue:
  "executeCommands scripted_host default_service [str ''cat b.js'', str ''ls'']
       (no_options\<lparr>continueOnError := True\<rparr>) initial_state =
     ([\<lparr>command = str ''cat b.js'', stdout = str ''partial'', stderr = str ''No such file'',
        exitCode = CNum 2, duration = 4, blocked = False, truncated = False, error = True\<rparr>,
       \<lparr>command = str ''ls'', stdout = str ''a.txt\<newline>\<newline>b.txt\<newline>'', stderr = [],
        exitCode = CNum 0, duration = 8, blocked = False, truncated = False, error = False\<rparr>],
      \<lparr>world = 14, spawned = [str ''cat b.js'', str ''ls''], generated = []\<rparr>)"
  by (simp add: executeCommands_def initial_state_def run_ls run_cat_b)

theorem continue_on_error_runs_all_witness:
  "continueOnError (no_options\<lparr>continueOnError := True\<rparr>) \<and>
   exitCode (hd (fst (executeCommands scripted_host default_service
                        [str ''cat b.js'', str ''ls''] (no_options\<lparr>continueOnError := True\<rparr>)
                        initial_state))) = CNum 2 \<and>
   length (fst (executeCommands scripted_host default_service
                  [str ''cat b.js'', str ''ls''] (no_options\<lparr>continueOnError := True\<rparr>)
                  initial_state)) = 2 \<and>
   map command (fst (executeCommands scripted_host default_service
                  [str ''cat b.js'', str ''ls''] (no_options\<lparr>continueOnError := True\<rparr>)
                  initial_state)) = [str ''cat b.js'', str ''ls'']"
proof -
  have c: "continueOnError (no_options\<lparr>continueOnError := True\<rparr>)"
    by simp
  show ?thesis
    using continue_on_error_runs_all [OF c run_cat_b_ls_continue]
    by (simp add: run_cat_b_ls_continue)
qed

section \<open>Bounded output\<close>

lemma isCommandSafe_small: "isCommandSafe small_service cmd = isCommandSafe default_service cmd"
  by (simp add: isCommandSafe_def startsWithSafeCommand_def small_safeCommands)

lemma run_docker_small:
  "executeCommand scripted_host small_service (str ''docker ps'') no_options initial_state =
     (\<lparr>command = str ''docker ps'', stdout = [], stderr = blocked_message, exitCode = CNum 1,
       duration = 1, blocked = True, truncated = False, error = False\<rparr>,
      \<lparr>world = 2, spawned = [], generated = []\<rparr>)"
proof -
  have "\<not> skipSafetyCheck no_options"
    by (simp add: no_options_def)
  moreover have "\<not> isCommandSafe small_service (str ''docker ps'')"
    by (simp add: isCommandSafe_small unsafe_docker)
  ultimately show ?thesis
    using executeCommand_blocked_result [of no_options small_service "str ''docker ps''"
        scripted_host initial_state]
    by (simp add: scripted_host_def scripted_now_def initial_state_def)
qed

lemma run_cat_b_small:
  "executeCommand scripted_host small_service (str ''cat b.js'') no_options initial_state =
     (\<lparr>command = str ''cat b.js'', stdout = str ''parti'' @ truncation_marker,
       stderr = str ''No su'' @ truncation_marker,
       exitCode = CNum 2, duration = 4, blocked = False, truncated = False, error = True\<rparr>,
      \<lparr>world = 5, spawned = [str ''cat b.js''], generated = []\<rparr>)"
  by (simp add: executeCommand_def isCommandSafe_small safe_cat_b scripted_host_def
      scripted_now_def scripted_exec_def startsWith_str truncateOutput_def
      small_maxOutputLength length_str or_string_def str_eq_Nil initial_state_def take_str
      no_options_def)

lemma run_ls_small:
  "executeCommand scripted_host small_service (str ''ls'') no_options initial_state =
     (\<lparr>command = str ''ls'', stdout = str ''a.txt'' @ truncation_marker, stderr = [],
       exitCode = CNum 0, duration = 8, blocked = False, truncated = True, error = False\<rparr>,
      \<lparr>world = 9, spawned = [str ''ls''], generated = []\<rparr>)"
  by (simp add: executeCommand_def isCommandSafe_small safe_ls scripted_host_def
      scripted_now_def scripted_exec_def startsWith_str truncateOutput_def
      small_maxOutputLength length_str initial_state_def take_str no_options_def str_eq_Nil)

text \<open>
  C3, as the claim states it, fails twice. With a budget of five code units, the blocked
  result for \<open>docker ps\<close> has the fixed message of 34 code units as its stderr, more
  than the budget and the 23 code units of the marker together. And on the path of the
  \<open>catch\<close> block, \<open>cat b.js\<close> fails with a raw stdout of seven code units, which
  is cut to five and marked, while the flag \<open>truncated\<close> is not set.
\<close>

theorem output_bound_counterexample:
  "blocked (fst (executeCommand scripted_host small_service (str ''docker ps'') no_options
                   initial_state)) \<and>
   \<not> length (stderr (fst (executeCommand scripted_host small_service (str ''docker ps'')
                             no_options initial_state)))
       \<le> maxOutputLength small_service + length truncation_marker \<and>
   fst (execAsync scripted_host (str ''cat b.js'')
          (exec_options_of scripted_host small_service no_options) 1) =
     Rejected \<lparr>e_stdout = Some (str ''partial''), e_stderr = Some (str ''No such file''),
               e_message = str ''Command failed'', e_code = CNum 2\<rparr> \<and>
   maxOutputLength small_service < length (str ''partial'') \<and>
   stdout (fst (executeCommand scripted_host small_service (str ''cat b.js'') no_options
                  initial_state)) = str ''parti'' @ truncation_marker \<and>
   \<not> truncated (fst (executeCommand scripted_host small_service (str ''cat b.js'') no_options
                        initial_state))"
proof -
  have raw: "fst (execAsync scripted_host (str ''cat b.js'')
          (exec_options_of scripted_host small_service no_options) 1) =
     Rejected \<lparr>e_stdout = Some (str ''partial''), e_stderr = Some (str ''No such file''),
               e_message = str ''Command failed'', e_code = CNum 2\<rparr>"
    by (simp add: scripted_host_def scripted_exec_def startsWith_str)
  show ?thesis
    using raw
    by (simp add: run_docker_small run_cat_b_small small_maxOutputLength
        length_truncation_marker length_blocked_message length_str)
qed

text \<open>
  C3, amended. For every result of \<open>executeCommand\<close>: stdout has at most the
  configured length plus the length of the marker (23); a blocked result has an empty
  stdout and the fixed message of 34 code units as stderr, whatever the budget is; the
  stderr of every other result has at most the configured length plus the length of
  the marker; and when the subprocess succeeds (the promise of \<open>execAsync\<close> is resolved)
  the two fields are the raw streams cut by \<open>truncateOutput\<close> and the flag \<open>truncated\<close>
  is set if and only if a raw stream is longer than the configured length. The flag
  on the path of the \<open>catch\<close> block is left open.
\<close>

theorem output_bound:
  assumes "executeCommand h svc cmd opts s = (r, s')"
  shows "length (stdout r) \<le> maxOutputLength svc + length truncation_marker \<and>
         (if blocked r then stdout r = [] \<and> stderr r = blocked_message
          else length (stderr r) \<le> maxOutputLength svc + length truncation_marker) \<and>
         (\<forall>out err. \<not> blocked r \<and>
             fst (execAsync h cmd (exec_options_of h svc opts) (snd (Date_now h (world s)))) =
               Resolved out err \<longrightarrow>
             stdout r = truncateOutput svc out \<and> stderr r = truncateOutput svc err \<and>
             (truncated r \<longleftrightarrow>
                maxOutputLength svc < length out \<or> maxOutputLength svc < length err))"
  using assms
  by (auto simp: executeCommand_def Let_def length_truncateOutput
      split: prod.splits exec_outcome.splits if_splits)

theorem output_bound_witness:
  "\<not> blocked (fst (executeCommand scripted_host small_service (str ''ls'') no_options
                     initial_state)) \<and>
   fst (execAsync scripted_host (str ''ls'')
          (exec_options_of scripted_host small_service no_options)
          (snd (Date_now scripted_host (world initial_state)))) =
     Resolved (str ''a.txt\<newline>\<newline>b.txt\<newline>'') [] \<and>
   maxOutputLength small_service < length (str ''a.txt\<newline>\<newline>b.txt\<newline>'') \<and>
   truncated (fst (executeCommand scripted_host small_service (str ''ls'') no_options
                     initial_state)) \<and>
   stdout (fst (executeCommand scripted_host small_service (str ''ls'') no_options
                  initial_state)) = str ''a.txt'' @ truncation_marker \<and>
   length (stdout (fst (executeCommand scripted_host small_service (str ''ls'') no_options
                          initial_state))) = 28 \<and>
   maxOutputLength small_service + length truncation_marker = 28"
proof -
  have raw: "fst (execAsync scripted_host (str ''ls'')
          (exec_options_of scripted_host small_service no_options)
          (snd (Date_now scripted_host (world initial_state)))) =
     Resolved (str ''a.txt\<newline>\<newline>b.txt\<newline>'') []"
    by (simp add: scripted_host_def scripted_exec_def startsWith_str)
  have bound: "length (str ''a.txt'' @ truncation_marker)
      \<le> maxOutputLength small_service + length truncation_marker"
    using output_bound [OF run_ls_small, THEN conjunct1] by simp
  show ?thesis
    using raw bound
    by (simp add: run_ls_small small_maxOutputLength length_truncation_marker length_str)
qed

section \<open>Lines that are not blank\<close>

lemma trim_eq_Nil: "trim s = [] \<longleftrightarrow> list_all isTrimmable s"
proof -
  have "dropWhile isTrimmable (rev (dropWhile isTrimmable s)) = [] \<longleftrightarrow>
      dropWhile isTrimmable s = []"
  proof (cases "dropWhile isTrimmable s")
    case Nil
    then show ?thesis by (auto dest: set_dropWhileD)
  next
    case (Cons c cs)
    then have "\<not> isTrimmable c"
      using hd_dropWhile [of isTrimmable s] by simp
    then show ?thesis
      using Cons by (auto simp: dropWhile_eq_Nil_conv)
  qed
  then show ?thesis
    by (simp add: trim_def dropWhile_eq_Nil_conv list_all_iff)
qed

lemma nonblank_split_from:
  "length (filter (\<lambda>line. trim line \<noteq> []) (split_from LF piece s)) =
     nonblank_lines_from (\<not> list_all isTrimmable piece) s"
  by (induction s arbitrary: piece) (simp_all add: trim_eq_Nil)

lemma matches_nonblank_lines:
  "length (filter (\<lambda>line. trim line \<noteq> []) (split LF s)) = nonblank_lines s"
  by (simp add: split_def nonblank_lines_def nonblank_split_from)

lemma matches_search_entry: "matches (search_entry_of r) = nonblank_lines (stdout r)"
  by (simp add: search_entry_of_def matches_nonblank_lines)

lemma se_command_search_entry: "se_command (search_entry_of r) = command r"
  by (simp add: search_entry_of_def)

section \<open>The search meta-command\<close>

lemma length_searchCommands: "length (searchCommands query ctx) = 3"
  by (simp add: searchCommands_def)

lemma searchCommands_heads:
  "startsWith (searchCommands query ctx ! 0) (str ''grep -r '') \<and>
   startsWith (searchCommands query ctx ! 1) (str ''find '') \<and>
   startsWith (searchCommands query ctx ! 2) (str ''git log '')"
  by (simp add: searchCommands_def startsWith_def length_str) (simp add: str_def)

lemma search_batch:
  assumes "continueOnError opts"
  shows "map command (fst (executeCommands h svc (searchCommands query ctx) opts s)) =
           searchCommands query ctx"
  using executeCommands_commands [of h svc "searchCommands query ctx" opts s]
    executeCommands_continue_length [OF assms, of h svc "searchCommands query ctx" s]
  by simp

lemma nonblank_lines_from_line:
  "nonblank_lines_from seen (x @ LF # y) =
     nonblank_lines_from seen x + nonblank_lines_from False y"
  by (induction x arbitrary: seen) simp_all

lemma nonblank_lines_marked:
  "nonblank_lines (x @ truncation_marker) = nonblank_lines x + 1"
proof -
  have m: "truncation_marker = LF # str ''... (output truncated)''"
    by (simp add: truncation_marker_def str_def LF_def)
  have "nonblank_lines_from False (str ''... (output truncated)'') = 1"
    by (simp add: str_def LF_def isTrimmable_def isWhiteSpace_def isLineTerminator_def)
  then show ?thesis
    by (simp add: nonblank_lines_def m nonblank_lines_from_line)
qed

lemma nonblank_lines_Nil: "nonblank_lines [] = 0"
  by (simp add: nonblank_lines_def)

lemma executeCommand_stdout:
  "stdout (fst (executeCommand h svc cmd opts t)) =
     (if blocked (fst (executeCommand h svc cmd opts t)) then []
      else truncateOutput svc
             (captured_stdout (fst (execAsync h cmd (exec_options_of h svc opts)
                                      (snd (Date_now h (world t)))))))"
  by (simp add: executeCommand_def Let_def split: prod.splits exec_outcome.splits)

lemma matches_of_executeCommand:
  "matches (search_entry_of (fst (executeCommand h svc cmd opts t))) =
     (if blocked (fst (executeCommand h svc cmd opts t)) then 0
      else if length (captured_stdout (fst (execAsync h cmd (exec_options_of h svc opts)
                                              (snd (Date_now h (world t))))))
              \<le> maxOutputLength svc
      then nonblank_lines (captured_stdout (fst (execAsync h cmd (exec_options_of h svc opts)
                                                   (snd (Date_now h (world t))))))
      else nonblank_lines (take (maxOutputLength svc)
                             (captured_stdout (fst (execAsync h cmd
                                (exec_options_of h svc opts) (snd (Date_now h (world t))))))) + 1)"
  by (simp add: matches_search_entry executeCommand_stdout truncateOutput_def
      nonblank_lines_marked nonblank_lines_Nil)

lemma search_batch_results:
  assumes "continueOnError opts"
  shows "fst (executeCommands h svc (searchCommands query ctx) opts s) =
     [fst (executeCommand h svc (searchCommands query ctx ! 0) opts s),
      fst (executeCommand h svc (searchCommands query ctx ! 1) opts
             (snd (executeCommand h svc (searchCommands query ctx ! 0) opts s))),
      fst (executeCommand h svc (searchCommands query ctx ! 2) opts
             (snd (executeCommand h svc (searchCommands query ctx ! 1) opts
                (snd (executeCommand h svc (searchCommands query ctx ! 0) opts s)))))]"
  using assms
  by (simp add: searchCommands_def executeCommands_Cons executeCommands_Nil case_prod_beta)

lemma probes_safe:
  "isCommandSafe default_service (str ''grep -r '' @ DQUOTE @ str ''x'' @ DQUOTE @ str '' .'') \<and>
   isCommandSafe default_service (str ''find . -name '' @ DQUOTE @ str ''*x*'' @ DQUOTE) \<and>
   isCommandSafe default_service
     (str ''git log --grep='' @ DQUOTE @ str ''x'' @ DQUOTE @ str '' --oneline -10'')"
  by (simp add: isCommandSafe_def startsWithSafeCommand_def default_safeCommands startsWith_def
      DQUOTE_def deny_eval)

lemma run_search_x:
  "executeCommands scripted_host default_service (searchCommands (str ''x'') no_context)
       (no_options\<lparr>continueOnError := True\<rparr>) initial_state =
     ([\<lparr>command = str ''grep -r '' @ DQUOTE @ str ''x'' @ DQUOTE @ str '' .'',
        stdout = str ''a.txt\<newline>\<newline>b.txt\<newline>'', stderr = [],
        exitCode = CNum 0, duration = 8, blocked = False, truncated = False, error = False\<rparr>,
       \<lparr>command = str ''find . -name '' @ DQUOTE @ str ''*x*'' @ DQUOTE,
        stdout = str ''partial'', stderr = str ''No such file'',
        exitCode = CNum 2, duration = 4, blocked = False, truncated = False, error = True\<rparr>,
       \<lparr>command = str ''git log --grep='' @ DQUOTE @ str ''x'' @ DQUOTE @ str '' --oneline -10'',
        stdout = str ''partial'', stderr = str ''No such file'',
        exitCode = CNum 2, duration = 4, blocked = False, truncated = False, error = True\<rparr>],
      \<lparr>world = 19,
        spawned = [str ''grep -r '' @ DQUOTE @ str ''x'' @ DQUOTE @ str '' .'',
                   str ''find . -name '' @ DQUOTE @ str ''*x*'' @ DQUOTE,
                   str ''git log --grep='' @ DQUOTE @ str ''x'' @ DQUOTE @ str '' --oneline -10''],
        generated = []\<rparr>)"
  using probes_safe
  by (simp add: executeCommands_def searchCommands_def no_context_def or_string_def
      initial_state_def no_options_def executeCommand_def scripted_host_def scripted_now_def
      scripted_exec_def truncateOutput_def default_maxOutputLength startsWith_def DQUOTE_def
      str_def)

lemma nonblank_lines_examples:
  "nonblank_lines (str ''a.txt\<newline>\<newline>b.txt\<newline>'') = 2"
  "nonblank_lines (str ''partial'') = 1"
  by (simp_all add: nonblank_lines_def str_def LF_def isTrimmable_def isWhiteSpace_def
      isLineTerminator_def)

lemma probes_safe_small:
  "isCommandSafe small_service (str ''grep -r '' @ DQUOTE @ str ''x'' @ DQUOTE @ str '' .'') \<and>
   isCommandSafe small_service (str ''find . -name '' @ DQUOTE @ str ''*x*'' @ DQUOTE) \<and>
   isCommandSafe small_service
     (str ''git log --grep='' @ DQUOTE @ str ''x'' @ DQUOTE @ str '' --oneline -10'')"
  using probes_safe by (simp add: isCommandSafe_small)

lemma run_search_one_line:
  assumes "continueOnError opts" and "\<not> skipSafetyCheck opts"
  shows "fst (executeCommands one_line_host small_service (searchCommands (str ''x'') no_context)
          opts initial_state) =
     [\<lparr>command = str ''grep -r '' @ DQUOTE @ str ''x'' @ DQUOTE @ str '' .'',
        stdout = str ''abcde'' @ truncation_marker, stderr = [],
        exitCode = CNum 0, duration = 2, blocked = False, truncated = True, error = False\<rparr>,
       \<lparr>command = str ''find . -name '' @ DQUOTE @ str ''*x*'' @ DQUOTE,
        stdout = str ''abcde'' @ truncation_marker, stderr = [],
        exitCode = CNum 0, duration = 2, blocked = False, truncated = True, error = False\<rparr>,
       \<lparr>command = str ''git log --grep='' @ DQUOTE @ str ''x'' @ DQUOTE @ str '' --oneline -10'',
        stdout = str ''abcde'' @ truncation_marker, stderr = [],
        exitCode = CNum 0, duration = 2, blocked = False, truncated = True, error = False\<rparr>]"
  using probes_safe_small assms
  by (simp add: executeCommands_def searchCommands_def no_context_def or_string_def
      initial_state_def executeCommand_def one_line_host_def scripted_now_def
      one_line_exec_def truncateOutput_def small_maxOutputLength DQUOTE_def str_def)

lemma matches_marked_example:
  "matches (search_entry_of \<lparr>command = c, stdout = str ''abcde'' @ truncation_marker,
      stderr = [], exitCode = CNum 0, duration = 2, blocked = False, truncated = True,
      error = False\<rparr>) = 2"
  "nonblank_lines (str ''abcdefgh'') = 1"
  by (simp_all add: matches_search_entry nonblank_lines_marked)
    (simp_all add: nonblank_lines_def str_def LF_def isTrimmable_def isWhiteSpace_def
      isLineTerminator_def)

text \<open>
  C7, as the claim states it, fails in its last part. With a budget of five code units
  and a host on which each probe prints the one line \<open>abcdefgh\<close>, the captured
  stdout of each probe has one line that is not blank, but \<open>matches\<close> is 2 for
  each: it is counted on the stdout field of the result, which is the captured stdout
  cut to the budget and followed by the marker, a second line.
\<close>

theorem claudeSearch_counterexample:
  "fst (execAsync one_line_host (searchCommands (str ''x'') no_context ! 0)
          (exec_options_of one_line_host small_service (no_options\<lparr>continueOnError := True\<rparr>)) 1) =
     Resolved (str ''abcdefgh'') [] \<and>
   nonblank_lines (str ''abcdefgh'') = 1 \<and>
   map matches (results (fst (TerminalService_claudeSearch one_line_host small_service
                                (str ''x'') no_context initial_state))) = [2, 2, 2] \<and>
   map matches (results (fst (Provider_claudeSearch one_line_host small_service
                                (str ''x'') no_context initial_state))) = [2, 2, 2]"
proof -
  have raw: "fst (execAsync one_line_host (searchCommands (str ''x'') no_context ! 0)
          (exec_options_of one_line_host small_service (no_options\<lparr>continueOnError := True\<rparr>)) 1) =
     Resolved (str ''abcdefgh'') []"
    by (simp add: one_line_host_def one_line_exec_def)
  have r1: "fst (executeCommands one_line_host small_service
        (searchCommands (str ''x'') no_context) (no_options\<lparr>continueOnError := True\<rparr>)
        initial_state) =
      [\<lparr>command = str ''grep -r '' @ DQUOTE @ str ''x'' @ DQUOTE @ str '' .'',
        stdout = str ''abcde'' @ truncation_marker, stderr = [],
        exitCode = CNum 0, duration = 2, blocked = False, truncated = True, error = False\<rparr>,
       \<lparr>command = str ''find . -name '' @ DQUOTE @ str ''*x*'' @ DQUOTE,
        stdout = str ''abcde'' @ truncation_marker, stderr = [],
        exitCode = CNum 0, duration = 2, blocked = False, truncated = True, error = False\<rparr>,
       \<lparr>command = str ''git log --grep='' @ DQUOTE @ str ''x'' @ DQUOTE @ str '' --oneline -10'',
        stdout = str ''abcde'' @ truncation_marker, stderr = [],
        exitCode = CNum 0, duration = 2, blocked = False, truncated = True, error = False\<rparr>]"
    by (rule run_search_one_line) (simp_all add: no_options_def)
  have r2: "fst (executeCommands one_line_host small_service
        (searchCommands (str ''x'') no_context)
        (no_options\<lparr>continueOnError := True, cwd := ctx_projectRoot no_context\<rparr>)
        initial_state) =
      [\<lparr>command = str ''grep -r '' @ DQUOTE @ str ''x'' @ DQUOTE @ str '' .'',
        stdout = str ''abcde'' @ truncation_marker, stderr = [],
        exitCode = CNum 0, duration = 2, blocked = False, truncated = True, error = False\<rparr>,
       \<lparr>command = str ''find . -name '' @ DQUOTE @ str ''*x*'' @ DQUOTE,
        stdout = str ''abcde'' @ truncation_marker, stderr = [],
        exitCode = CNum 0, duration = 2, blocked = False, truncated = True, error = False\<rparr>,
       \<lparr>command = str ''git log --grep='' @ DQUOTE @ str ''x'' @ DQUOTE @ str '' --oneline -10'',
        stdout = str ''abcde'' @ truncation_marker, stderr = [],
        exitCode = CNum 0, duration = 2, blocked = False, truncated = True, error = False\<rparr>]"
    by (rule run_search_one_line) (simp_all add: no_options_def)
  have ts: "map matches (results (fst (TerminalService_claudeSearch one_line_host small_service
                                (str ''x'') no_context initial_state))) = [2, 2, 2]"
    by (simp add: TerminalService_claudeSearch_def case_prod_beta r1 matches_marked_example)
  have pr: "map matches (results (fst (Provider_claudeSearch one_line_host small_service
                                (str ''x'') no_context initial_state))) = [2, 2, 2]"
    by (simp add: Provider_claudeSearch_def case_prod_beta r2 matches_marked_example)
  show ?thesis
    using raw ts pr by (simp add: matches_marked_example)
qed

text \<open>
  C7, amended. For every query, \<open>claudeSearch\<close> of either class hands \<open>executeCommands\<close>
  the three commands \<open>grep -r\<close>, \<open>find\<close> and \<open>git log\<close>, in this order and with
  \<open>continueOnError\<close> true, and so gets three results in this order, whatever their exit
  codes are: the results of \<open>executeCommand\<close> on the three probes, one after the other
  (a probe that the safety check blocks gives its blocked result and spawns nothing).
  The entry made of each result carries the command of the probe, and its \<open>matches\<close>
  is the number of the lines of the stdout field of that result that are not blank
  after trimming. For a result of \<open>executeCommand\<close> that is the number of such lines of
  the captured stdout whenever the captured stdout is within the configured length;
  beyond it, it is the number of such lines of the part kept plus one, for the marker;
  and it is 0 for a blocked result.
\<close>

theorem claudeSearch_three_probes:
  assumes "TerminalService_claudeSearch h svc query ctx s = (out, s')"
    and "Provider_claudeSearch h svc query ctx s = (out_p, s_p)"
  shows "length (searchCommands query ctx) = 3 \<and>
         startsWith (searchCommands query ctx ! 0) (str ''grep -r '') \<and>
         startsWith (searchCommands query ctx ! 1) (str ''find '') \<and>
         startsWith (searchCommands query ctx ! 2) (str ''git log '') \<and>
         (let rs = fst (executeCommands h svc (searchCommands query ctx)
                          (no_options\<lparr>continueOnError := True\<rparr>) s)
          in map command rs = searchCommands query ctx \<and>
             map se_command (results out) = searchCommands query ctx \<and>
             map matches (results out) = map (\<lambda>r. nonblank_lines (stdout r)) rs \<and>
             spawned s' = spawned s @ map command (filter (\<lambda>r. \<not> blocked r) rs)) \<and>
         (let rs = fst (executeCommands h svc (searchCommands query ctx)
                          (no_options\<lparr>continueOnError := True, cwd := ctx_projectRoot ctx\<rparr>) s)
          in map command rs = searchCommands query ctx \<and>
             map se_command (results out_p) = searchCommands query ctx \<and>
             map matches (results out_p) = map (\<lambda>r. nonblank_lines (stdout r)) rs \<and>
             spawned s_p = spawned s @ map command (filter (\<lambda>r. \<not> blocked r) rs)) \<and>
         (\<forall>opts. continueOnError opts \<longrightarrow>
            fst (executeCommands h svc (searchCommands query ctx) opts s) =
              [fst (executeCommand h svc (searchCommands query ctx ! 0) opts s),
               fst (executeCommand h svc (searchCommands query ctx ! 1) opts
                      (snd (executeCommand h svc (searchCommands query ctx ! 0) opts s))),
               fst (executeCommand h svc (searchCommands query ctx ! 2) opts
                      (snd (executeCommand h svc (searchCommands query ctx ! 1) opts
                         (snd (executeCommand h svc (searchCommands query ctx ! 0) opts s)))))]) \<and>
         (\<forall>cmd opts t.
            matches (search_entry_of (fst (executeCommand h svc cmd opts t))) =
              (if blocked (fst (executeCommand h svc cmd opts t)) then 0
               else if length (captured_stdout (fst (execAsync h cmd (exec_options_of h svc opts)
                                                       (snd (Date_now h (world t))))))
                       \<le> maxOutputLength svc
               then nonblank_lines
                      (captured_stdout (fst (execAsync h cmd (exec_options_of h svc opts)
                                               (snd (Date_now h (world t))))))
               else nonblank_lines
                      (take (maxOutputLength svc)
                         (captured_stdout (fst (execAsync h cmd (exec_options_of h svc opts)
                                                  (snd (Date_now h (world t))))))) + 1))"
proof -
  let ?o1 = "no_options\<lparr>continueOnError := True\<rparr>"
  let ?o2 = "no_options\<lparr>continueOnError := True, cwd := ctx_projectRoot ctx\<rparr>"
  let ?r1 = "fst (executeCommands h svc (searchCommands query ctx) ?o1 s)"
  let ?r2 = "fst (executeCommands h svc (searchCommands query ctx) ?o2 s)"
  have c1: "map command ?r1 = searchCommands query ctx"
    by (rule search_batch) simp
  have c2: "map command ?r2 = searchCommands query ctx"
    by (rule search_batch) simp
  have out: "results out = map search_entry_of ?r1"
    and s': "s' = snd (executeCommands h svc (searchCommands query ctx) ?o1 s)"
    using assms(1) by (auto simp: TerminalService_claudeSearch_def split: prod.splits)
  have out_p: "results out_p = map search_entry_of ?r2"
    and s_p: "s_p = snd (executeCommands h svc (searchCommands query ctx) ?o2 s)"
    using assms(2) by (auto simp: Provider_claudeSearch_def split: prod.splits)
  have e1: "map se_command (results out) = searchCommands query ctx"
    using c1 by (simp add: out se_command_search_entry comp_def)
  have e2: "map se_command (results out_p) = searchCommands query ctx"
    using c2 by (simp add: out_p se_command_search_entry comp_def)
  have m1: "map matches (results out) = map (\<lambda>r. nonblank_lines (stdout r)) ?r1"
    by (simp add: out matches_search_entry comp_def)
  have m2: "map matches (results out_p) = map (\<lambda>r. nonblank_lines (stdout r)) ?r2"
    by (simp add: out_p matches_search_entry comp_def)
  have sp1: "spawned s' = spawned s @ map command (filter (\<lambda>r. \<not> blocked r) ?r1)"
    unfolding s' by (rule executeCommands_spawned)
  have sp2: "spawned s_p = spawned s @ map command (filter (\<lambda>r. \<not> blocked r) ?r2)"
    unfolding s_p by (rule executeCommands_spawned)
  have first: "length (searchCommands query ctx) = 3 \<and>
         startsWith (searchCommands query ctx ! 0) (str ''grep -r '') \<and>
         startsWith (searchCommands query ctx ! 1) (str ''find '') \<and>
         startsWith (searchCommands query ctx ! 2) (str ''git log '') \<and>
         (map command ?r1 = searchCommands query ctx \<and>
          map se_command (results out) = searchCommands query ctx \<and>
          map matches (results out) = map (\<lambda>r. nonblank_lines (stdout r)) ?r1 \<and>
          spawned s' = spawned s @ map command (filter (\<lambda>r. \<not> blocked r) ?r1)) \<and>
         (map command ?r2 = searchCommands query ctx \<and>
          map se_command (results out_p) = searchCommands query ctx \<and>
          map matches (results out_p) = map (\<lambda>r. nonblank_lines (stdout r)) ?r2 \<and>
          spawned s_p = spawned s @ map command (filter (\<lambda>r. \<not> blocked r) ?r2))"
    using length_searchCommands [of query ctx] searchCommands_heads [of query ctx]
      c1 e1 m1 sp1 c2 e2 m2 sp2
    by blast
  have batch: "\<forall>opts. continueOnError opts \<longrightarrow>
            fst (executeCommands h svc (searchCommands query ctx) opts s) =
              [fst (executeCommand h svc (searchCommands query ctx ! 0) opts s),
               fst (executeCommand h svc (searchCommands query ctx ! 1) opts
                      (snd (executeCommand h svc (searchCommands query ctx ! 0) opts s))),
               fst (executeCommand h svc (searchCommands query ctx ! 2) opts
                      (snd (executeCommand h svc (searchCommands query ctx ! 1) opts
                         (snd (executeCommand h svc (searchCommands query ctx ! 0) opts s)))))]"
    by (intro allI impI) (rule search_batch_results)
  have count: "\<forall>cmd opts t.
            matches (search_entry_of (fst (executeCommand h svc cmd opts t))) =
              (if blocked (fst (executeCommand h svc cmd opts t)) then 0
               else if length (captured_stdout (fst (execAsync h cmd (exec_options_of h svc opts)
                                                       (snd (Date_now h (world t))))))
                       \<le> maxOutputLength svc
               then nonblank_lines
                      (captured_stdout (fst (execAsync h cmd (exec_options_of h svc opts)
                                               (snd (Date_now h (world t))))))
               else nonblank_lines
                      (take (maxOutputLength svc)
                         (captured_stdout (fst (execAsync h cmd (exec_options_of h svc opts)
                                                  (snd (Date_now h (world t))))))) + 1)"
    by (intro allI) (rule matches_of_executeCommand)
  show ?thesis
    unfolding Let_def
    using first batch count
    by (elim conjE, intro conjI) assumption+
qed

theorem claudeSearch_three_probes_witness:
  "map matches (results (fst (TerminalService_claudeSearch scripted_host default_service
                                (str ''x'') no_context initial_state))) = [2, 1, 1] \<and>
   map se_command (results (fst (TerminalService_claudeSearch scripted_host default_service
                                   (str ''x'') no_context initial_state))) =
     searchCommands (str ''x'') no_context \<and>
   map se_command (results (fst (Provider_claudeSearch scripted_host default_service
                                   (str ''x'') no_context initial_state))) =
     searchCommands (str ''x'') no_context \<and>
   map exitCode (fst (executeCommands scripted_host default_service
                        (searchCommands (str ''x'') no_context)
                        (no_options\<lparr>continueOnError := True\<rparr>) initial_state)) =
     [CNum 0, CNum 2, CNum 2] \<and>
   captured_stdout (fst (execAsync scripted_host (searchCommands (str ''x'') no_context ! 0)
      (exec_options_of scripted_host default_service (no_options\<lparr>continueOnError := True\<rparr>))
      (snd (Date_now scripted_host (world initial_state))))) = str ''a.txt\<newline>\<newline>b.txt\<newline>'' \<and>
   nonblank_lines (str ''a.txt\<newline>\<newline>b.txt\<newline>'') = 2"
proof -
  have raw: "captured_stdout (fst (execAsync scripted_host
      (searchCommands (str ''x'') no_context ! 0)
      (exec_options_of scripted_host default_service (no_options\<lparr>continueOnError := True\<rparr>))
      (snd (Date_now scripted_host (world initial_state))))) = str ''a.txt\<newline>\<newline>b.txt\<newline>''"
    by (simp add: scripted_host_def scripted_exec_def searchCommands_def startsWith_def
        DQUOTE_def) (simp add: str_def)
  have p1: "TerminalService_claudeSearch scripted_host default_service (str ''x'') no_context
        initial_state =
      (fst (TerminalService_claudeSearch scripted_host default_service (str ''x'') no_context
              initial_state),
       snd (TerminalService_claudeSearch scripted_host default_service (str ''x'') no_context
              initial_state))"
    by simp
  have p2: "Provider_claudeSearch scripted_host default_service (str ''x'') no_context
        initial_state =
      (fst (Provider_claudeSearch scripted_host default_service (str ''x'') no_context
              initial_state),
       snd (Provider_claudeSearch scripted_host default_service (str ''x'') no_context
              initial_state))"
    by simp
  have t: "map matches (results (fst (TerminalService_claudeSearch scripted_host
              default_service (str ''x'') no_context initial_state))) =
        map (\<lambda>r. nonblank_lines (stdout r))
          (fst (executeCommands scripted_host default_service
                  (searchCommands (str ''x'') no_context)
                  (no_options\<lparr>continueOnError := True\<rparr>) initial_state)) \<and>
      map se_command (results (fst (TerminalService_claudeSearch scripted_host default_service
                                   (str ''x'') no_context initial_state))) =
        searchCommands (str ''x'') no_context \<and>
      map se_command (results (fst (Provider_claudeSearch scripted_host default_service
                                   (str ''x'') no_context initial_state))) =
        searchCommands (str ''x'') no_context"
    using claudeSearch_three_probes [OF p1 p2] unfolding Let_def by blast
  show ?thesis
    using t raw by (simp add: run_search_x nonblank_lines_examples)
qed

section \<open>The explain meta-command\<close>

lemma explain_b:
  "Provider_claudeExplain scripted_host default_service (str ''b.js'') no_context initial_state =
     (Inr (ExplainError (str ''claude-explain b.js'') (str ''Could not read file'')
             (str ''No such file'')),
      \<lparr>world = 5, spawned = [str ''cat b.js''], generated = []\<rparr>)"
  by (simp add: Provider_claudeExplain_def str_append initial_state_def run_cat_b)

lemma explain_a:
  "Provider_claudeExplain scripted_host default_service (str ''a.js'') no_context initial_state =
     (Inr (Explanation (str ''claude-explain a.js'') (str ''It lists files.'')),
      \<lparr>world = 54, spawned = [str ''cat a.js''],
        generated = [explain_params (str ''let x = 1;'')]\<rparr>)"
  by (simp add: Provider_claudeExplain_def str_append initial_state_def run_cat_a)
    (simp add: scripted_host_def scripted_generateText_def str_append)

text \<open>
  C8, as the claim states it, fails for the \<open>claudeExplain\<close> of \<open>TerminalService\<close>:
  reading \<open>b.js\<close> fails with exit code 2, and the provider's \<open>claudeExplain\<close> returns
  the failure, but \<open>TerminalService.claudeExplain\<close> returns an explanation, the fixed
  text, having read nothing.
\<close>

theorem claudeExplain_counterexample:
  "exitCode (fst (executeCommand scripted_host default_service (str ''cat b.js'')
                    (no_options\<lparr>cwd := ctx_projectRoot no_context\<rparr>) initial_state)) = CNum 2 \<and>
   fst (Provider_claudeExplain scripted_host default_service (str ''b.js'') no_context
          initial_state) =
     Inr (ExplainError (str ''claude-explain b.js'') (str ''Could not read file'')
            (str ''No such file'')) \<and>
   TerminalService_claudeExplain (str ''b.js'') no_context =
     Explanation (str ''claude-explain b.js'')
       (str ''This command would use AI to explain the specified code or file'')"
proof -
  have r: "executeCommand scripted_host default_service (str ''cat b.js'')
      (no_options\<lparr>cwd := ctx_projectRoot no_context\<rparr>) initial_state =
     (\<lparr>command = str ''cat b.js'', stdout = str ''partial'', stderr = str ''No such file'',
       exitCode = CNum 2, duration = 4, blocked = False, truncated = False, error = True\<rparr>,
      \<lparr>world = 5, spawned = [str ''cat b.js''], generated = []\<rparr>)"
    by (simp add: initial_state_def run_cat_b)
  show ?thesis
    by (simp add: r explain_b TerminalService_claudeExplain_def str_append)
qed

text \<open>
  C8, amended. For every target, the \<open>claudeExplain\<close> of the provider first runs
  \<open>cat\<close> on the target through \<open>executeCommand\<close>. If the exit code of that result is
  0, it hands the stdout of the result to the text generation, once, and returns the
  explanation with the generated text (or fails with the error of the text generation,
  if that fails); otherwise it returns the failure \<open>Could not read file\<close> with the
  stderr of the result, and the text generation is not called. The \<open>claudeExplain\<close> of
  \<open>TerminalService\<close> is a placeholder: it runs nothing and returns a fixed explanation
  for every target.
\<close>

theorem claudeExplain_reads_first:
  assumes "executeCommand h svc (str ''cat '' @ target)
             (no_options\<lparr>cwd := ctx_projectRoot ctx\<rparr>) s = (fileContent, s1)"
    and "Provider_claudeExplain h svc target ctx s = (res, s2)"
  shows "(if exitCode fileContent = CNum 0 then
            generated s2 = generated s @ [explain_params (stdout fileContent)] \<and>
            spawned s2 = spawned s1 \<and>
            world s2 = snd (super_generateText h (explain_params (stdout fileContent)) (world s1)) \<and>
            res = (case fst (super_generateText h (explain_params (stdout fileContent))
                               (world s1)) of
                     Generated text \<Rightarrow> Inr (Explanation (str ''claude-explain '' @ target) text)
                   | GenerateFailed e \<Rightarrow> Inl e)
          else
            res = Inr (ExplainError (str ''claude-explain '' @ target)
                         (str ''Could not read file'') (stderr fileContent)) \<and>
            s2 = s1 \<and> generated s2 = generated s) \<and>
         TerminalService_claudeExplain target ctx =
           Explanation (str ''claude-explain '' @ target)
             (str ''This command would use AI to explain the specified code or file'')"
proof -
  have g: "generated s1 = generated s"
    using executeCommand_generated [of h svc "str ''cat '' @ target"
        "no_options\<lparr>cwd := ctx_projectRoot ctx\<rparr>" s] assms(1)
    by simp
  show ?thesis
    using assms g
    by (auto simp: Provider_claudeExplain_def TerminalService_claudeExplain_def
        split: prod.splits generate_outcome.splits)
qed

theorem claudeExplain_reads_first_witness:
  "exitCode (fst (executeCommand scripted_host default_service (str ''cat '' @ str ''a.js'')
                    (no_options\<lparr>cwd := ctx_projectRoot no_context\<rparr>) initial_state)) = CNum 0 \<and>
   stdout (fst (executeCommand scripted_host default_service (str ''cat '' @ str ''a.js'')
                  (no_options\<lparr>cwd := ctx_projectRoot no_context\<rparr>) initial_state)) =
     str ''let x = 1;'' \<and>
   fst (Provider_claudeExplain scripted_host default_service (str ''a.js'') no_context
          initial_state) =
     Inr (Explanation (str ''claude-explain a.js'') (str ''It lists files.'')) \<and>
   generated (snd (Provider_claudeExplain scripted_host default_service (str ''a.js'')
                     no_context initial_state)) = [explain_params (str ''let x = 1;'')]"
proof -
  have r: "executeCommand scripted_host default_service (str ''cat '' @ str ''a.js'')
      (no_options\<lparr>cwd := ctx_projectRoot no_context\<rparr>) initial_state =
     (\<lparr>command = str ''cat a.js'', stdout = str ''let x = 1;'', stderr = [],
       exitCode = CNum 0, duration = 3, blocked = False, truncated = False, error = False\<rparr>,
      \<lparr>world = 4, spawned = [str ''cat a.js''], generated = []\<rparr>)"
    by (simp add: str_append initial_state_def run_cat_a)
  have g: "generated \<lparr>world = 54::int, spawned = [str ''cat a.js''],
        generated = [explain_params (str ''let x = 1;'')]\<rparr> =
      generated initial_state @ [explain_params (str ''let x = 1;'')]"
    using claudeExplain_reads_first [OF r explain_a] by simp
  show ?thesis
    using g by (simp add: r explain_a)
qed

section \<open>The formatters\<close>

lemma Number_toString_examples:
  "Number_toString 0 = str ''0''" "Number_toString 1 = str ''1''"
  "Number_toString 2 = str ''2''" "Number_toString 12 = str ''12''"
  "Number_toString 999 = str ''999''"
  by (simp_all add: Number_toString_def digits.simps str_def)

text \<open>
  C9, as the claim states it, fails for each of the two formatters. The prompt text of
  a result (\<open>formatTerminalResults\<close>) has a heading, the exit code and the output, but
  no status indicator and no duration: another duration gives the same text. The
  terminal line of a result (\<open>formatResult\<close>) has the indicator, the command and the
  duration, but no exit code; it gives the error text of a result with exit code 0, and
  for a blocked result it gives no notice, only the same parts as for any other failure.
\<close>

theorem format_counterexample:
  "formatTerminalResults [sample_result] =
     str ''### Command 1: `ls`\<newline>**Exit Code:** 0\<newline>**Output:**\<newline>```\<newline>a.txt\<newline>```\<newline>'' \<and>
   formatTerminalResults [sample_result\<lparr>duration := 999\<rparr>] =
     formatTerminalResults [sample_result] \<and>
   exitCode sample_result = CNum 0 \<and>
   formatResult plain_chalk sample_result =
     CHECK_MARK @ str '' ls (12ms)\<newline>Output:\<newline>a.txt\<newline>Error:\<newline>warning\<newline>'' \<and>
   blocked sample_blocked \<and>
   formatResult plain_chalk sample_blocked =
     BALLOT_X @ str '' sudo ls (0ms)\<newline>Error:\<newline>Command blocked for safety reasons\<newline>''"
  by (simp add: formatTerminalResults_def formatTerminalResult_def formatResult_def
      sample_result_def sample_blocked_def plain_chalk_def Number_toString_examples
      str_append str_eq_Nil blocked_message_def SPACE_def LF_def)
    (simp add: str_def)

text \<open>
  C9, amended. The prompt text of a result list is the texts of its results, in
  order and joined by a line feed, and the text of a result is, in order: a heading with
  the position (from 1) and the command; for a result with \<open>blocked\<close> set, the
  blocked-for-safety notice with the reason (its stderr), and neither exit code nor
  output; otherwise the exit code, an output block exactly when stdout is not empty, and
  an error block exactly when stderr is not empty and the exit code is not 0; and the
  truncation note exactly when the flag is set. It has no status indicator and no
  duration. The terminal line of \<open>formatResult\<close> is, in order: the status indicator,
  the command and the duration; an output block exactly when stdout is not empty; an
  error block exactly when stderr is not empty, whatever the exit code is; and the
  truncation note exactly when the flag is set. It has no exit code and nothing
  special for a blocked result.
\<close>

theorem format_follows_segments:
  "formatTerminalResult r index = concat (map prompt_text (prompt_segments r index)) \<and>
   formatTerminalResults rs =
     join [LF] (map2 (\<lambda>r index. concat (map prompt_text (prompt_segments r index)))
                  rs [0 ..< length rs]) \<and>
   formatResult ch r = concat (map (terminal_text ch) (terminal_segments r))"
proof -
  have one: "formatTerminalResult r index = concat (map prompt_text (prompt_segments r index))"
    for r index
    by (simp add: formatTerminalResult_def prompt_segments_def add.commute)
  have "formatTerminalResult = (\<lambda>r index. concat (map prompt_text (prompt_segments r index)))"
    by (intro ext) (rule one)
  then have many: "formatTerminalResults rs =
     join [LF] (map2 (\<lambda>r index. concat (map prompt_text (prompt_segments r index)))
                  rs [0 ..< length rs])"
    by (simp add: formatTerminalResults_def)
  have line: "formatResult ch r = concat (map (terminal_text ch) (terminal_segments r))"
    by (simp add: formatResult_def terminal_segments_def)
  show ?thesis
    using one many line by simp
qed

theorem format_follows_segments_witness:
  "prompt_segments sample_result 0 =
     [Heading 1 (str ''ls''), ExitCodeLine (CNum 0), OutputBlock (str ''a.txt'')] \<and>
   prompt_segments sample_blocked 1 = [Heading 2 (str ''sudo ls''), BlockedNotice blocked_message] \<and>
   terminal_segments sample_blocked =
     [StatusLine False (str ''sudo ls'') 0, ErrorBlock blocked_message] \<and>
   formatTerminalResults [sample_result, sample_blocked] =
     str ''### Command 1: `ls`\<newline>**Exit Code:** 0\<newline>**Output:**\<newline>```\<newline>a.txt\<newline>```\<newline>''
     @ [LF]
     @ str ''### Command 2: `sudo ls`\<newline>**Status:** Blocked for safety\<newline>''
     @ str ''**Reason:** Command blocked for safety reasons\<newline>'' \<and>
   formatResult plain_chalk sample_blocked =
     concat (map (terminal_text plain_chalk)
               [StatusLine False (str ''sudo ls'') 0, ErrorBlock blocked_message])"
proof -
  have seg: "prompt_segments sample_result 0 =
      [Heading 1 (str ''ls''), ExitCodeLine (CNum 0), OutputBlock (str ''a.txt'')]"
    "prompt_segments sample_blocked 1 =
      [Heading 2 (str ''sudo ls''), BlockedNotice blocked_message]"
    "terminal_segments sample_blocked =
      [StatusLine False (str ''sudo ls'') 0, ErrorBlock blocked_message]"
    by (simp_all add: prompt_segments_def terminal_segments_def sample_result_def
        sample_blocked_def str_eq_Nil blocked_message_def)
  have seg1: "prompt_segments sample_blocked (Suc 0) =
      [Heading 2 (str ''sudo ls''), BlockedNotice blocked_message]"
    using seg(2) by simp
  have two: "[0 ..< length [sample_result, sample_blocked]] = [0, 1]"
    by (simp add: upt_rec)
  have t: "formatTerminalResults [sample_result, sample_blocked] =
      join [LF] (map2 (\<lambda>r index. concat (map prompt_text (prompt_segments r index)))
                   [sample_result, sample_blocked]
                   [0 ..< length [sample_result, sample_blocked]]) \<and>
      formatResult plain_chalk sample_blocked =
        concat (map (terminal_text plain_chalk) (terminal_segments sample_blocked))"
    using format_follows_segments [of sample_blocked 1 "[sample_result, sample_blocked]"
        plain_chalk]
    by simp
  have joined: "join [LF] (map2 (\<lambda>r index. concat (map prompt_text (prompt_segments r index)))
                   [sample_result, sample_blocked] [0, 1]) =
     str ''### Command 1: `ls`\<newline>**Exit Code:** 0\<newline>**Output:**\<newline>```\<newline>a.txt\<newline>```\<newline>''
     @ [LF]
     @ str ''### Command 2: `sudo ls`\<newline>**Status:** Blocked for safety\<newline>''
     @ str ''**Reason:** Command blocked for safety reasons\<newline>''"
    by (simp add: seg seg1 Number_toString_examples blocked_message_def) (simp add: str_def)
  show ?thesis
    using t by (simp only: seg two joined)
qed

end
